theory Spec2Isabelle
  imports Complex_Main "HOL-Library.Sublist" "HOL-Library.Multiset"
begin

section \<open>SkyCast: the weather query service and the export engine\<close>

text \<open>
  A shallow embedding of \<^verbatim>\<open>lib/weatherService.ts\<close> (class \<^verbatim>\<open>WeatherService\<close>), of the
  paging arithmetic of the two request handlers that call \<^verbatim>\<open>listWeatherQueries\<close>, and of
  \<^verbatim>\<open>escapeXML\<close> / \<^verbatim>\<open>generateSimpleXML\<close> of \<^verbatim>\<open>lib/exportService.ts\<close>.

  Conventions of the model:
  \<^item> a JavaScript \<^verbatim>\<open>Date\<close> is its time value, an \<open>int\<close> of milliseconds since the epoch;
    an Invalid Date is \<open>None\<close>. Local time is taken to be UTC.
  \<^item> a \<^verbatim>\<open>throw\<close> is a result \<open>Inl (Error msg)\<close>; a function that can throw returns
    \<open>error + 'a\<close>.
  \<^item> an optional field or argument (\<^verbatim>\<open>x?: T\<close>) is a \<open>T option\<close>.
  \<^item> a JavaScript number is a \<open>real\<close> where it is a measurement and an \<open>int\<close> where the
    code only ever produces integers (counts, page numbers, time values).
  \<^item> one reading of the clock (\<open>now\<close>) serves a whole operation.
  \<^item> an operation of the service starts with the database handle in hand: \<^verbatim>\<open>getDatabase\<close>
    (\<^verbatim>\<open>lib/mongodb.ts\<close>) has returned, and the two collections answer.
  \<^item> the libraries are the ones the repository pins: mongodb 6.3.0, date-fns 2.30.0,
    fuse.js 7.0.0.
\<close>

subsection \<open>The JavaScript Date built-ins the service uses (ECMA-262, 21.4.1), in UTC\<close>

definition msPerDay :: int where
  "msPerDay = 86400000"

definition Day :: "int \<Rightarrow> int" where
  "Day t = t div msPerDay"

definition TimeWithinDay :: "int \<Rightarrow> int" where
  "TimeWithinDay t = t mod msPerDay"

definition DaysInYear :: "int \<Rightarrow> int" where
  "DaysInYear y =
     (if y mod 4 \<noteq> 0 then 365
      else if y mod 100 \<noteq> 0 then 366
      else if y mod 400 \<noteq> 0 then 365
      else 366)"

definition DayFromYear :: "int \<Rightarrow> int" where
  "DayFromYear y =
     365 * (y - 1970) + (y - 1969) div 4 - (y - 1901) div 100 + (y - 1601) div 400"

lemma div_succ:
  fixes a k :: int
  assumes k: "0 < k"
  shows "(a + 1) div k = a div k + (if (a + 1) mod k = 0 then 1 else 0)"
proof -
  define q where "q = a div k"
  define r where "r = a mod k"
  have a: "a = k * q + r" and r0: "0 \<le> r" and rk: "r < k"
    using k by (simp_all add: q_def r_def)
  show ?thesis
  proof (cases "r + 1 < k")
    case True
    have e: "a + 1 = k * q + (r + 1)"
      using a by simp
    have "(a + 1) div k = q"
      using e r0 True by (intro int_div_pos_eq[of _ _ _ "r + 1"]) simp_all
    moreover have "(a + 1) mod k = r + 1"
      using e r0 True by (intro int_mod_pos_eq[of _ _ q]) simp_all
    ultimately show ?thesis
      using r0 by (simp add: q_def)
  next
    case False
    then have rk': "r + 1 = k"
      using rk by simp
    have e: "a + 1 = k * (q + 1) + 0"
      using a rk' by (simp add: algebra_simps)
    have "(a + 1) div k = q + 1"
      using e k by (intro int_div_pos_eq[of _ _ _ 0]) simp_all
    moreover have "(a + 1) mod k = 0"
      using e k by (intro int_mod_pos_eq[of _ _ "q + 1"]) simp_all
    ultimately show ?thesis
      by (simp add: q_def)
  qed
qed

lemma mod4_shift: "((y::int) - 1968) mod 4 = y mod 4"
  by algebra

lemma mod100_shift: "((y::int) - 1900) mod 100 = y mod 100"
  by algebra

lemma mod400_shift: "((y::int) - 1600) mod 400 = y mod 400"
  by algebra

text \<open>A year is as long as the distance between its first day and the next year's.\<close>

lemma DayFromYear_Suc: "DayFromYear (y + 1) = DayFromYear y + DaysInYear y"
proof -
  have 1: "(y - 1968) div 4 = (y - 1969) div 4 + (if y mod 4 = 0 then 1 else 0)"
    using div_succ[of 4 "y - 1969"] mod4_shift[of y] by simp
  have 2: "(y - 1900) div 100 = (y - 1901) div 100 + (if y mod 100 = 0 then 1 else 0)"
    using div_succ[of 100 "y - 1901"] mod100_shift[of y] by simp
  have 3: "(y - 1600) div 400 = (y - 1601) div 400 + (if y mod 400 = 0 then 1 else 0)"
    using div_succ[of 400 "y - 1601"] mod400_shift[of y] by simp
  have 4: "y mod 400 = 0 \<Longrightarrow> y mod 100 = 0"
    using mod_mod_cancel[of 100 400 y] by simp
  have 5: "y mod 100 = 0 \<Longrightarrow> y mod 4 = 0"
    using mod_mod_cancel[of 4 100 y] by simp
  show ?thesis
    unfolding DayFromYear_def DaysInYear_def using 4 5
    by (simp add: 1 2 3)
qed

lemma DaysInYear_cases: "DaysInYear y = 365 \<or> DaysInYear y = 366"
  by (simp add: DaysInYear_def)

lemma DayFromYear_mono: "DayFromYear (y - 1) < DayFromYear y"
  using DayFromYear_Suc[of "y - 1"] DaysInYear_cases[of "y - 1"] by auto

text \<open>
  \<^verbatim>\<open>YearFromTime(t)\<close> is the largest year whose first day is not after \<open>t\<close>; the search
  starts at a year that is not before it and walks down.
\<close>

function year_down :: "int \<Rightarrow> int \<Rightarrow> int" where
  "year_down d y = (if DayFromYear y \<le> d then y else year_down d (y - 1))"
  by pat_completeness auto
termination
proof (relation "measure (\<lambda>(d, y). nat (DayFromYear y - d))")
  show "wf (measure (\<lambda>(d, y). nat (DayFromYear y - d)))"
    by simp
next
  fix d y :: int
  assume a: "\<not> DayFromYear y \<le> d"
  with DayFromYear_mono[of y]
  show "((d, y - 1), (d, y)) \<in> measure (\<lambda>(d, y). nat (DayFromYear y - d))"
    by simp
qed

declare year_down.simps [simp del]

definition YearFromTime :: "int \<Rightarrow> int" where
  "YearFromTime t =
     (let d = Day t
      in year_down d (1970 + (if 0 \<le> d then d div 365 else d div 366)))"

definition InLeapYear :: "int \<Rightarrow> bool" where
  "InLeapYear t = (DaysInYear (YearFromTime t) = 366)"

definition DayWithinYear :: "int \<Rightarrow> int" where
  "DayWithinYear t = Day t - DayFromYear (YearFromTime t)"

text \<open>The number of days of a year before its month \<open>m\<close> (0 = January).\<close>

definition DaysBeforeMonth :: "int \<Rightarrow> bool \<Rightarrow> int" where
  "DaysBeforeMonth m leap =
     (let l = (if leap then 1 else 0)
      in if m = 0 then 0
         else if m = 1 then 31
         else if m = 2 then 59 + l
         else if m = 3 then 90 + l
         else if m = 4 then 120 + l
         else if m = 5 then 151 + l
         else if m = 6 then 181 + l
         else if m = 7 then 212 + l
         else if m = 8 then 243 + l
         else if m = 9 then 273 + l
         else if m = 10 then 304 + l
         else 334 + l)"

definition MonthFromTime :: "int \<Rightarrow> int" where
  "MonthFromTime t =
     (let d = DayWithinYear t; l = (if InLeapYear t then 1 else 0)
      in if d < 31 then 0
         else if d < 59 + l then 1
         else if d < 90 + l then 2
         else if d < 120 + l then 3
         else if d < 151 + l then 4
         else if d < 181 + l then 5
         else if d < 212 + l then 6
         else if d < 243 + l then 7
         else if d < 273 + l then 8
         else if d < 304 + l then 9
         else if d < 334 + l then 10
         else 11)"

definition DateFromTime :: "int \<Rightarrow> int" where
  "DateFromTime t =
     DayWithinYear t - DaysBeforeMonth (MonthFromTime t) (InLeapYear t) + 1"

definition MakeDay :: "int \<Rightarrow> int \<Rightarrow> int \<Rightarrow> int" where
  "MakeDay year month date =
     (let ym = year + month div 12; mn = month mod 12
      in DayFromYear ym + DaysBeforeMonth mn (DaysInYear ym = 366) + date - 1)"

definition MakeDate :: "int \<Rightarrow> int \<Rightarrow> int" where
  "MakeDate day time = day * msPerDay + time"

definition getFullYear :: "int \<Rightarrow> int" where
  "getFullYear t = YearFromTime t"

definition getDate :: "int \<Rightarrow> int" where
  "getDate t = DateFromTime t"

definition setFullYear :: "int \<Rightarrow> int \<Rightarrow> int" where
  "setFullYear t year =
     MakeDate (MakeDay year (MonthFromTime t) (DateFromTime t)) (TimeWithinDay t)"

definition setDate :: "int \<Rightarrow> int \<Rightarrow> int" where
  "setDate t date =
     MakeDate (MakeDay (YearFromTime t) (MonthFromTime t) date) (TimeWithinDay t)"

subsection \<open>date-fns: \<^verbatim>\<open>isAfter\<close>, \<^verbatim>\<open>isBefore\<close>, \<^verbatim>\<open>format(d, 'yyyy-MM-dd')\<close>\<close>

definition isAfter :: "int \<Rightarrow> int \<Rightarrow> bool" where
  "isAfter date dateToCompare = (date > dateToCompare)"

definition isBefore :: "int \<Rightarrow> int \<Rightarrow> bool" where
  "isBefore date dateToCompare = (date < dateToCompare)"

definition digit :: "nat \<Rightarrow> char" where
  "digit n = char_of (48 + n)"

fun decimal :: "nat \<Rightarrow> string" where
  "decimal n = (if n < 10 then [digit n] else decimal (n div 10) @ [digit (n mod 10)])"

declare decimal.simps [simp del]

definition addLeadingZeros :: "nat \<Rightarrow> nat \<Rightarrow> string" where
  "addLeadingZeros n targetLength =
     (let s = decimal n in replicate (targetLength - length s) (CHR ''0'') @ s)"

definition format_ymd :: "int \<Rightarrow> string" where
  "format_ymd t =
     (let signedYear = YearFromTime t;
          year = (if signedYear > 0 then signedYear else 1 - signedYear)
      in addLeadingZeros (nat year) 4 @ ''-''
         @ addLeadingZeros (nat (MonthFromTime t + 1)) 2 @ ''-''
         @ addLeadingZeros (nat (DateFromTime t)) 2)"

subsection \<open>Date range validation\<close>

record DateRange =
  startDate :: string
  endDate :: string

record DateRangeValidation =
  isValid :: bool
  errors :: "string list"
  adjustedRange :: "DateRange option"

definition oneYearAgo :: "int \<Rightarrow> int" where
  "oneYearAgo now = setFullYear now (getFullYear now - 1)"

definition fiveDaysFromNow :: "int \<Rightarrow> int" where
  "fiveDaysFromNow now = setDate now (getDate now + 5)"

text \<open>
  \<^verbatim>\<open>validateDateRange\<close>. \<open>parseISO\<close> is date-fns' parser (\<open>None\<close>: the Invalid Date it
  returns for a string it cannot read) and \<open>now\<close> the clock. The ordering and horizon
  checks run only when both dates parsed (\<^verbatim>\<open>errors.length === 0\<close>).
\<close>

definition validateDateRange ::
  "(string \<Rightarrow> int option) \<Rightarrow> int \<Rightarrow> DateRange \<Rightarrow> DateRangeValidation" where
  "validateDateRange parseISO now dateRange =
     (let start = parseISO (startDate dateRange);
          endd = parseISO (endDate dateRange);
          errors1 =
            (if start = None then [''Start date is invalid''] else [])
            @ (if endd = None then [''End date is invalid''] else []);
          errors2 =
            (case (start, endd) of
               (Some s, Some e) \<Rightarrow>
                 (if isAfter s e then [''Start date cannot be after end date''] else [])
                 @ (if isBefore s (oneYearAgo now)
                    then [''Historical weather data is limited to the past year''] else [])
                 @ (if isAfter s (fiveDaysFromNow now)
                    then [''Weather forecasts are only available for the next 5 days with OpenWeatherMap free tier'']
                    else [])
                 @ (if isAfter e (fiveDaysFromNow now)
                    then [''For long-term planning beyond 5 days, consider using current weather patterns and seasonal trends'']
                    else [])
             | _ \<Rightarrow> errors1);
          adjusted =
            (if errors2 = [] then dateRange
             else \<lparr>startDate = format_ymd now,
                   endDate = format_ymd (now + 5 * 24 * 60 * 60 * 1000)\<rparr>)
      in \<lparr>isValid = (errors2 = []), errors = errors2, adjustedRange = Some adjusted\<rparr>)"

subsection \<open>The data model (\<^verbatim>\<open>types/weather.ts\<close>)\<close>

datatype error = Error (message: string)

record WeatherData =
  name :: string
  country :: string
  temperature :: real
  description :: string
  icon :: string
  feelsLike :: real
  humidity :: real
  pressure :: real
  windSpeed :: real
  windDirection :: real
  visibility :: real
  uvIndex :: "real option"
  clouds :: real
  sunrise :: real
  sunset :: real

record ForecastItem =
  date :: string
  temperature_min :: real
  temperature_max :: real
  fi_description :: string
  fi_icon :: string
  fi_humidity :: real
  fi_windSpeed :: real
  pop :: real

record ForecastData =
  city_name :: string
  city_country :: string
  forecast_list :: "ForecastItem list"

record Coordinates =
  lat :: real
  lon :: real

text \<open>
  \<^verbatim>\<open>WeatherQuery\<close>. \<open>oid\<close> is the field \<^verbatim>\<open>_id\<close>: the key of the document, in the form
  \<^verbatim>\<open>_id.toString()\<close> prints it.
\<close>

record WeatherQuery =
  oid :: string
  location :: string
  locationNormalized :: string
  coordinates :: "Coordinates option"
  dateRange :: DateRange
  weatherData :: WeatherData
  forecastData :: "ForecastData option"
  createdAt :: int
  updatedAt :: int
  tags :: "string list option"
  userNotes :: "string option"

record AIInsight =
  ai_oid :: string
  queryId :: string
  ai_location :: string
  insight :: string
  recommendations :: "string list option"
  weatherSummary :: string
  travelAdvice :: "string option"
  clothingRecommendations :: "string list option"
  activitySuggestions :: "string list option"
  generatedAt :: int
  model :: string

record LocationMatch =
  lm_name :: string
  lm_country :: string
  lm_state :: "string option"
  lm_coordinates :: Coordinates
  confidence :: real

record CreateWeatherQueryRequest =
  req_location :: string
  req_dateRange :: DateRange
  req_userNotes :: "string option"
  req_tags :: "string list option"

record UpdateWeatherQueryRequest =
  upd_location :: "string option"
  upd_dateRange :: "DateRange option"
  upd_userNotes :: "string option"
  upd_tags :: "string list option"

record WeatherQueryFilters =
  flt_location :: "string option"
  dateFrom :: "string option"
  dateTo :: "string option"
  flt_tags :: "string list option"
  hasAIInsight :: "bool option"

text \<open>
  \<^verbatim>\<open>PaginatedResponse\<close>. \<open>totalPages\<close> is \<open>None\<close> where \<^verbatim>\<open>Math.ceil(totalCount / limit)\<close>
  is not a finite number (\<^verbatim>\<open>limit\<close> is 0).
\<close>

record 'a PaginatedResponse =
  data :: "'a list"
  totalCount :: int
  page :: int
  limit :: int
  totalPages :: "int option"

subsection \<open>What the service is given: libraries, the weather provider, the clock\<close>

text \<open>
  The query document \<^verbatim>\<open>listWeatherQueries\<close> builds for \<^verbatim>\<open>find\<close> and
  \<^verbatim>\<open>countDocuments\<close>.
\<close>

record mongoQuery =
  locationNormalized_regex :: "string option"
  startDate_gte :: "string option"
  startDate_lte :: "string option"
  tags_in :: "string list option"

text \<open>
  Everything outside the repository that an operation consults:
  \<^item> \<open>dateParser\<close>: date-fns' \<^verbatim>\<open>parseISO\<close> (\<open>None\<close> for an Invalid Date);
  \<^item> \<open>clock\<close>: the time \<^verbatim>\<open>new Date()\<close> reads;
  \<^item> \<open>fuseScore pattern item\<close>: the distance in \<open>[0, 1]\<close> fuse.js gives an item for a pattern
    (\<open>None\<close>: the item does not match at all);
  \<^item> \<open>currentWeatherResponse n location\<close>, \<open>forecastResponse n location\<close>: what the
    provider answers, already normalised, to the operation's \<open>n\<close>-th call of
    \<^verbatim>\<open>getCurrentWeather\<close> / \<^verbatim>\<open>getForecast\<close>; \<open>None\<close> when anything in the call fails;
  \<^item> \<open>objectId s\<close>: \<^verbatim>\<open>new ObjectId(s)\<close> as the key it denotes, or the error the
    constructor throws;
  \<^item> \<open>insertedId\<close>: the key the driver gives the next inserted document;
  \<^item> \<open>matchesQuery\<close>: the database's evaluation of a query document on a stored document;
  \<^item> \<open>toLowerCase\<close>, \<open>trim\<close>, \<open>replaceWhitespaceRuns\<close>: the string methods
    \<^verbatim>\<open>toLowerCase()\<close>, \<^verbatim>\<open>trim()\<close> and \<^verbatim>\<open>replace(/\s+/g, ' ')\<close>, on whatever characters the
    strings hold.
\<close>

record env =
  dateParser :: "string \<Rightarrow> int option"
  clock :: int
  fuseScore :: "string \<Rightarrow> LocationMatch \<Rightarrow> real option"
  currentWeatherResponse :: "nat \<Rightarrow> string \<Rightarrow> WeatherData option"
  forecastResponse :: "nat \<Rightarrow> string \<Rightarrow> ForecastData option"
  objectId :: "string \<Rightarrow> error + string"
  insertedId :: string
  matchesQuery :: "mongoQuery \<Rightarrow> WeatherQuery \<Rightarrow> bool"
  toLowerCase :: "string \<Rightarrow> string"
  trim :: "string \<Rightarrow> string"
  replaceWhitespaceRuns :: "string \<Rightarrow> string"

text \<open>
  \<^verbatim>\<open>getCurrentWeather\<close> and \<^verbatim>\<open>getForecast\<close> (\<^verbatim>\<open>utils/weatherApi.ts\<close>) catch whatever
  goes wrong and throw one fixed error each.
\<close>

definition getCurrentWeather :: "env \<Rightarrow> nat \<Rightarrow> string \<Rightarrow> error + WeatherData" where
  "getCurrentWeather E n loc =
     (case currentWeatherResponse E n loc of
        None \<Rightarrow> Inl (Error ''Failed to fetch current weather data'')
      | Some w \<Rightarrow> Inr w)"

definition getForecast :: "env \<Rightarrow> nat \<Rightarrow> string \<Rightarrow> error + ForecastData" where
  "getForecast E n loc =
     (case forecastResponse E n loc of
        None \<Rightarrow> Inl (Error ''Failed to fetch forecast data'')
      | Some f \<Rightarrow> Inr f)"

subsection \<open>The two collections\<close>

datatype dbop =
  InsertQuery string
  | UpdateQuery string
  | DeleteInsightsOf string
  | DeleteQuery string

text \<open>
  The database: the documents of the two collections, in insertion order, and the write
  operations issued so far, oldest first.
\<close>

record store =
  weather_queries :: "WeatherQuery list"
  ai_insights :: "AIInsight list"
  writes :: "dbop list"

definition findOne :: "store \<Rightarrow> string \<Rightarrow> WeatherQuery option" where
  "findOne db k = find (\<lambda>q. oid q = k) (weather_queries db)"

text \<open>\<^verbatim>\<open>insertOne\<close>: the key index is unique, a second document with a key is refused.\<close>

definition insertOne :: "store \<Rightarrow> WeatherQuery \<Rightarrow> error + store" where
  "insertOne db q =
     (if findOne db (oid q) \<noteq> None then Inl (Error ''E11000 duplicate key error'')
      else Inr (db\<lparr>weather_queries := weather_queries db @ [q],
                   writes := writes db @ [InsertQuery (oid q)]\<rparr>))"

text \<open>The \<^verbatim>\<open>$set\<close> document of an update: a field that is \<open>None\<close> is not in it.\<close>

record updateDoc =
  set_updatedAt :: int
  set_location :: "string option"
  set_locationNormalized :: "string option"
  set_coordinates :: "Coordinates option"
  set_weatherData :: "WeatherData option"
  set_forecastData :: "ForecastData option"
  set_dateRange :: "DateRange option"
  set_userNotes :: "string option"
  set_tags :: "string list option"

definition apply_set :: "updateDoc \<Rightarrow> WeatherQuery \<Rightarrow> WeatherQuery" where
  "apply_set u q =
     q\<lparr>updatedAt := set_updatedAt u,
       location := (case set_location u of None \<Rightarrow> location q | Some v \<Rightarrow> v),
       locationNormalized :=
         (case set_locationNormalized u of None \<Rightarrow> locationNormalized q | Some v \<Rightarrow> v),
       coordinates := (case set_coordinates u of None \<Rightarrow> coordinates q | Some v \<Rightarrow> Some v),
       weatherData := (case set_weatherData u of None \<Rightarrow> weatherData q | Some v \<Rightarrow> v),
       forecastData := (case set_forecastData u of None \<Rightarrow> forecastData q | Some v \<Rightarrow> Some v),
       dateRange := (case set_dateRange u of None \<Rightarrow> dateRange q | Some v \<Rightarrow> v),
       userNotes := (case set_userNotes u of None \<Rightarrow> userNotes q | Some v \<Rightarrow> Some v),
       tags := (case set_tags u of None \<Rightarrow> tags q | Some v \<Rightarrow> Some v)\<rparr>"

fun replace_first :: "('a \<Rightarrow> bool) \<Rightarrow> 'a \<Rightarrow> 'a list \<Rightarrow> 'a list" where
  "replace_first P y [] = []"
| "replace_first P y (x # xs) = (if P x then y # xs else x # replace_first P y xs)"

fun remove_first :: "('a \<Rightarrow> bool) \<Rightarrow> 'a list \<Rightarrow> 'a list" where
  "remove_first P [] = []"
| "remove_first P (x # xs) = (if P x then xs else x # remove_first P xs)"

text \<open>
  \<^verbatim>\<open>findOneAndUpdate(filter, { $set }, { returnDocument: 'after' })\<close> of the driver the
  repository pins (6.3.0): the promise resolves to the updated document itself, or to
  \<^verbatim>\<open>null\<close> (\<open>None\<close>, and nothing written) when no document has the key.
\<close>

definition findOneAndUpdate :: "store \<Rightarrow> string \<Rightarrow> updateDoc \<Rightarrow> WeatherQuery option \<times> store" where
  "findOneAndUpdate db k u =
     (case findOne db k of
        None \<Rightarrow> (None, db)
      | Some q \<Rightarrow>
          (Some (apply_set u q),
           db\<lparr>weather_queries := replace_first (\<lambda>d. oid d = k) (apply_set u q) (weather_queries db),
              writes := writes db @ [UpdateQuery k]\<rparr>))"

text \<open>\<^verbatim>\<open>deleteMany({ queryId })\<close> on the insights, \<^verbatim>\<open>deleteOne({ _id })\<close> on the queries.\<close>

definition deleteMany_insights :: "store \<Rightarrow> string \<Rightarrow> store" where
  "deleteMany_insights db qid =
     db\<lparr>ai_insights := filter (\<lambda>i. queryId i \<noteq> qid) (ai_insights db),
        writes := writes db @ [DeleteInsightsOf qid]\<rparr>"

definition deleteOne :: "store \<Rightarrow> string \<Rightarrow> nat \<times> store" where
  "deleteOne db k =
     ((if findOne db k = None then 0 else 1),
      db\<lparr>weather_queries := remove_first (\<lambda>d. oid d = k) (weather_queries db),
         writes := writes db @ [DeleteQuery k]\<rparr>)"

subsection \<open>The service: construction and location matching\<close>

text \<open>
  A \<^verbatim>\<open>Fuse\<close> index over location entries: the collection it was built on and the
  \<^verbatim>\<open>threshold\<close> option. \<^verbatim>\<open>search\<close> scores every entry of the collection, keeps those
  within the threshold and returns them, best (smallest distance) first.
\<close>

record LocationFuse =
  fuse_collection :: "LocationMatch list"
  fuse_threshold :: real

definition Fuse_search ::
  "(string \<Rightarrow> LocationMatch \<Rightarrow> real option) \<Rightarrow> LocationFuse \<Rightarrow> string
     \<Rightarrow> (LocationMatch \<times> real) list" where
  "Fuse_search score fz pattern =
     sort_key snd
       (List.map_filter
          (\<lambda>entry. case score pattern entry of
                      None \<Rightarrow> None
                    | Some sc \<Rightarrow> if sc \<le> fuse_threshold fz then Some (entry, sc) else None)
          (fuse_collection fz))"

record WeatherService =
  fuse :: LocationFuse

text \<open>The constructor: \<^verbatim>\<open>this.fuse = new Fuse([], { keys: [...], threshold: 0.3 })\<close>.\<close>

definition WeatherService_constructor :: WeatherService where
  "WeatherService_constructor = \<lparr>fuse = \<lparr>fuse_collection = [], fuse_threshold = 0.3\<rparr>\<rparr>"

text \<open>
  \<^verbatim>\<open>validateLocation\<close>: the operation's first call of \<^verbatim>\<open>getCurrentWeather\<close>; when it
  throws, the error is dropped and the fuzzy search answers.
\<close>

definition validateLocation :: "WeatherService \<Rightarrow> env \<Rightarrow> string \<Rightarrow> LocationMatch list" where
  "validateLocation this E loc =
     (case getCurrentWeather E 0 loc of
        Inr w \<Rightarrow>
          [\<lparr>lm_name = name w, lm_country = country w, lm_state = None,
            lm_coordinates = \<lparr>lat = 0, lon = 0\<rparr>, confidence = 1\<rparr>]
      | Inl _ \<Rightarrow>
          map (\<lambda>result.
                 \<lparr>lm_name = lm_name (fst result), lm_country = lm_country (fst result),
                  lm_state = lm_state (fst result),
                  lm_coordinates = \<lparr>lat = 0, lon = 0\<rparr>,
                  confidence = 1 - snd result\<rparr>)
              (Fuse_search (fuseScore E) (fuse this) loc))"

text \<open>\<^verbatim>\<open>normalizeLocation\<close>: \<^verbatim>\<open>location.toLowerCase().trim().replace(/\s+/g, ' ')\<close>.\<close>

definition normalizeLocation :: "env \<Rightarrow> string \<Rightarrow> string" where
  "normalizeLocation E loc = replaceWhitespaceRuns E (trim E (toLowerCase E loc))"

subsection \<open>The service: create, get, update, delete, list\<close>

definition dquote :: string where
  "dquote = [CHR 0x22]"

text \<open>\<^verbatim>\<open>Array.prototype.join\<close>.\<close>

definition join :: "string \<Rightarrow> string list \<Rightarrow> string" where
  "join sep xs = (case xs of [] \<Rightarrow> [] | y # ys \<Rightarrow> y @ concat (map (\<lambda>z. sep @ z) ys))"

text \<open>
  \<^verbatim>\<open>createWeatherQuery\<close>. The result is what the promise settles to, with the database
  as the operation leaves it. The weather fetch is the operation's second call of
  \<^verbatim>\<open>getCurrentWeather\<close> (the first is \<^verbatim>\<open>validateLocation\<close>'s); a forecast that fails
  is \<^verbatim>\<open>null\<close>. Whatever is thrown from the fetch on is caught and thrown again under
  the prefix \<^verbatim>\<open>Failed to fetch weather data: \<close>.
\<close>

definition createWeatherQuery ::
  "WeatherService \<Rightarrow> env \<Rightarrow> store \<Rightarrow> CreateWeatherQueryRequest
     \<Rightarrow> (error + WeatherQuery) \<times> store" where
  "createWeatherQuery this E db request =
     (let dateValidation =
            validateDateRange (dateParser E) (clock E) (req_dateRange request)
      in if \<not> isValid dateValidation
         then (Inl (Error (''Invalid date range: '' @ join '', '' (errors dateValidation))), db)
         else
           (case validateLocation this E (req_location request) of
              [] \<Rightarrow>
                (Inl (Error (''Location '' @ dquote @ req_location request @ dquote
                             @ '' not found. Please check the spelling and try again.'')),
                 db)
            | bestMatch # _ \<Rightarrow>
                (let finalLocation =
                       (if confidence bestMatch > 0.8 then lm_name bestMatch
                        else req_location request)
                 in case getCurrentWeather E 1 finalLocation of
                      Inl e \<Rightarrow>
                        (Inl (Error (''Failed to fetch weather data: '' @ message e)), db)
                    | Inr w \<Rightarrow>
                        (let f = (case getForecast E 0 finalLocation of
                                    Inl _ \<Rightarrow> None
                                  | Inr fc \<Rightarrow> Some fc);
                             weatherQuery =
                               \<lparr>oid = insertedId E,
                                location = req_location request,
                                locationNormalized = normalizeLocation E finalLocation,
                                coordinates = Some (lm_coordinates bestMatch),
                                dateRange =
                                  (case adjustedRange dateValidation of
                                     Some r \<Rightarrow> r
                                   | None \<Rightarrow> req_dateRange request),
                                weatherData = w,
                                forecastData = f,
                                createdAt = clock E,
                                updatedAt = clock E,
                                tags = Some (case req_tags request of
                                               None \<Rightarrow> [] | Some ts \<Rightarrow> ts),
                                userNotes = Some (case req_userNotes request of
                                                    None \<Rightarrow> [] | Some n \<Rightarrow> n)\<rparr>
                         in case insertOne db weatherQuery of
                              Inl e \<Rightarrow>
                                (Inl (Error (''Failed to fetch weather data: '' @ message e)),
                                 db)
                            | Inr db' \<Rightarrow>
                                (case findOne db' (insertedId E) of
                                   None \<Rightarrow>
                                     (Inl (Error (''Failed to fetch weather data: ''
                                                  @ ''Failed to create weather query'')),
                                      db')
                                 | Some created \<Rightarrow> (Inr created, db'))))))"

text \<open>\<^verbatim>\<open>getWeatherQuery\<close>: an error of the key's constructor is logged and answered by null.\<close>

definition getWeatherQuery :: "env \<Rightarrow> store \<Rightarrow> string \<Rightarrow> WeatherQuery option" where
  "getWeatherQuery E db qid =
     (case objectId E qid of Inl _ \<Rightarrow> None | Inr k \<Rightarrow> findOne db k)"

text \<open>
  \<^verbatim>\<open>updateWeatherQuery\<close>, block by block. \<open>handle_location_update\<close> is the block under
  \<^verbatim>\<open>// Handle location update\<close>: it runs when \<^verbatim>\<open>updates.location\<close> is there and not
  empty, and puts the forecast into the \<^verbatim>\<open>$set\<close> document only when the fetch gave one
  (\<^verbatim>\<open>if (forecastData)\<close>).
\<close>

definition handle_location_update ::
  "WeatherService \<Rightarrow> env \<Rightarrow> UpdateWeatherQueryRequest \<Rightarrow> updateDoc \<Rightarrow> error + updateDoc" where
  "handle_location_update this E updates u =
     (case upd_location updates of
        None \<Rightarrow> Inr u
      | Some loc \<Rightarrow>
          if loc = [] then Inr u
          else
            (case validateLocation this E loc of
               [] \<Rightarrow> Inl (Error (''Location '' @ dquote @ loc @ dquote @ '' not found''))
             | bestMatch # _ \<Rightarrow>
                 (let finalLocation =
                        (if confidence bestMatch > 0.8 then lm_name bestMatch else loc)
                  in case getCurrentWeather E 1 finalLocation of
                       Inl e \<Rightarrow> Inl e
                     | Inr w \<Rightarrow>
                         Inr (u\<lparr>set_location := Some loc,
                                set_locationNormalized := Some (normalizeLocation E finalLocation),
                                set_coordinates := Some (lm_coordinates bestMatch),
                                set_weatherData := Some w,
                                set_forecastData :=
                                  (case getForecast E 0 finalLocation of
                                     Inl _ \<Rightarrow> set_forecastData u
                                   | Inr fc \<Rightarrow> Some fc)\<rparr>))))"

text \<open>The block under \<^verbatim>\<open>// Handle date range update\<close>.\<close>

definition handle_dateRange_update ::
  "env \<Rightarrow> UpdateWeatherQueryRequest \<Rightarrow> updateDoc \<Rightarrow> error + updateDoc" where
  "handle_dateRange_update E updates u =
     (case upd_dateRange updates of
        None \<Rightarrow> Inr u
      | Some r \<Rightarrow>
          (let dateValidation = validateDateRange (dateParser E) (clock E) r
           in if \<not> isValid dateValidation
              then Inl (Error (''Invalid date range: '' @ join '', '' (errors dateValidation)))
              else Inr (u\<lparr>set_dateRange :=
                            Some (case adjustedRange dateValidation of
                                    Some a \<Rightarrow> a | None \<Rightarrow> r)\<rparr>)))"

text \<open>
  \<^verbatim>\<open>updateWeatherQuery\<close> itself. What \<^verbatim>\<open>findOneAndUpdate\<close> resolves to is read as
  \<^verbatim>\<open>result.value\<close>: on \<^verbatim>\<open>null\<close> that is a \<^verbatim>\<open>TypeError\<close>, caught and thrown again under the
  prefix of the operation; on the updated document it is the document's property
  \<^verbatim>\<open>value\<close>, which a query document does not have (\<open>value_of\<close>), so the operation
  answers \<^verbatim>\<open>null\<close> after the write.
\<close>

definition value_of :: "WeatherQuery \<Rightarrow> WeatherQuery option" where
  "value_of result = None"

definition updateWeatherQuery ::
  "WeatherService \<Rightarrow> env \<Rightarrow> store \<Rightarrow> string \<Rightarrow> UpdateWeatherQueryRequest
     \<Rightarrow> (error + WeatherQuery option) \<times> store" where
  "updateWeatherQuery this E db qid updates =
     (let updateDoc0 =
            \<lparr>set_updatedAt = clock E, set_location = None, set_locationNormalized = None,
             set_coordinates = None, set_weatherData = None, set_forecastData = None,
             set_dateRange = None, set_userNotes = None, set_tags = None\<rparr>
      in case handle_location_update this E updates updateDoc0 of
           Inl e \<Rightarrow> (Inl (Error (''Failed to update weather query: '' @ message e)), db)
         | Inr u1 \<Rightarrow>
             (case handle_dateRange_update E updates u1 of
                Inl e \<Rightarrow> (Inl (Error (''Failed to update weather query: '' @ message e)), db)
              | Inr u2 \<Rightarrow>
                  (let u3 = u2\<lparr>set_userNotes := upd_userNotes updates,
                               set_tags := upd_tags updates\<rparr>
                   in case objectId E qid of
                        Inl e \<Rightarrow>
                          (Inl (Error (''Failed to update weather query: '' @ message e)), db)
                      | Inr k \<Rightarrow>
                          (case findOneAndUpdate db k u3 of
                             (None, db') \<Rightarrow>
                               (Inl (Error (''Failed to update weather query: ''
                                            @ ''Cannot read properties of null (reading ''
                                            @ [CHR 0x27] @ ''value'' @ [CHR 0x27] @ '')'')),
                                db')
                           | (Some result, db') \<Rightarrow> (Inr (value_of result), db')))))"

text \<open>
  \<^verbatim>\<open>deleteWeatherQuery\<close>: the insights of the query go first, under the string the caller
  gave; then the key is built and the query document deleted. An error on the way is
  logged and answered by \<^verbatim>\<open>false\<close>.
\<close>

definition deleteWeatherQuery :: "env \<Rightarrow> store \<Rightarrow> string \<Rightarrow> (error + bool) \<times> store" where
  "deleteWeatherQuery E db qid =
     (let db1 = deleteMany_insights db qid
      in case objectId E qid of
           Inl _ \<Rightarrow> (Inr False, db1)
         | Inr k \<Rightarrow>
             (case deleteOne db1 k of
                (deletedCount, db2) \<Rightarrow> (Inr (deletedCount = 1), db2)))"

text \<open>
  The query document of \<^verbatim>\<open>listWeatherQueries\<close>: a filter that is absent or empty adds
  no condition; \<^verbatim>\<open>hasAIInsight\<close> is not read.
\<close>

definition buildQuery :: "env \<Rightarrow> WeatherQueryFilters \<Rightarrow> mongoQuery" where
  "buildQuery E filters =
     \<lparr>locationNormalized_regex =
        (case flt_location filters of
           None \<Rightarrow> None
         | Some l \<Rightarrow> if l = [] then None else Some (normalizeLocation E l)),
      startDate_gte =
        (case dateFrom filters of None \<Rightarrow> None | Some d \<Rightarrow> if d = [] then None else Some d),
      startDate_lte =
        (case dateTo filters of None \<Rightarrow> None | Some d \<Rightarrow> if d = [] then None else Some d),
      tags_in =
        (case flt_tags filters of
           None \<Rightarrow> None
         | Some ts \<Rightarrow> if ts = [] then None else Some ts)\<rparr>"

text \<open>
  The cursor: \<^verbatim>\<open>limit(0)\<close> is no limit and a negative limit counts as its absolute
  value; a negative \<^verbatim>\<open>skip\<close> is refused by the database.
\<close>

definition cursor_limit :: "int \<Rightarrow> 'a list \<Rightarrow> 'a list" where
  "cursor_limit n xs = (if n = 0 then xs else take (nat \<bar>n\<bar>) xs)"

text \<open>\<^verbatim>\<open>Math.ceil(a / b)\<close> on integers: not a finite number when \<open>b\<close> is 0.\<close>

definition ceil_div :: "int \<Rightarrow> int \<Rightarrow> int option" where
  "ceil_div a b = (if b = 0 then None else Some \<lceil>real_of_int a / real_of_int b\<rceil>)"

text \<open>
  \<^verbatim>\<open>sort({ createdAt: -1 })\<close>: newest first. Among records of one instant the database
  fixes no order; the model keeps the stored one.
\<close>

definition sort_createdAt_desc :: "WeatherQuery list \<Rightarrow> WeatherQuery list" where
  "sort_createdAt_desc xs = sort_key (\<lambda>q. - createdAt q) xs"

definition listWeatherQueries ::
  "env \<Rightarrow> store \<Rightarrow> WeatherQueryFilters \<Rightarrow> int \<Rightarrow> int
     \<Rightarrow> error + WeatherQuery PaginatedResponse" where
  "listWeatherQueries E db filters pageArg limitArg =
     (let query = buildQuery E filters;
          skip = (pageArg - 1) * limitArg
      in if skip < 0 then Inl (Error ''Failed to fetch weather queries'')
         else
           (let found = filter (matchesQuery E query) (weather_queries db);
                listing = sort_createdAt_desc found
            in Inr \<lparr>data = cursor_limit limitArg (drop (nat skip) listing),
                    totalCount = int (length found),
                    page = pageArg,
                    limit = limitArg,
                    totalPages = ceil_div (int (length found)) limitArg\<rparr>))"

text \<open>
  The paging of the two handlers. Their arguments are what \<^verbatim>\<open>parseInt\<close> made of the
  request's \<^verbatim>\<open>page\<close> and \<^verbatim>\<open>limit\<close> (\<open>None\<close>: \<^verbatim>\<open>NaN\<close>); \<^verbatim>\<open>x || d\<close> is \<open>d\<close> when
  \<open>x\<close> is \<^verbatim>\<open>NaN\<close> or 0.
\<close>

definition or_default :: "int option \<Rightarrow> int \<Rightarrow> int" where
  "or_default x d = (case x of None \<Rightarrow> d | Some n \<Rightarrow> if n = 0 then d else n)"

definition handleGet_pageNum :: "int option \<Rightarrow> int" where
  "handleGet_pageNum parsed_page = or_default parsed_page 1"

definition handleGet_limitNum :: "int option \<Rightarrow> int" where
  "handleGet_limitNum parsed_limit = min (or_default parsed_limit 10) 50"

definition handleGet ::
  "env \<Rightarrow> store \<Rightarrow> WeatherQueryFilters \<Rightarrow> int option \<Rightarrow> int option
     \<Rightarrow> error + WeatherQuery PaginatedResponse" where
  "handleGet E db filters parsed_page parsed_limit =
     listWeatherQueries E db filters
       (handleGet_pageNum parsed_page) (handleGet_limitNum parsed_limit)"



subsection \<open>Export: \<^verbatim>\<open>escapeXML\<close> and the XML generator that builds the string itself\<close>

text \<open>\<^verbatim>\<open>text.replace(/c/g, r)\<close> for a single character \<open>c\<close>.\<close>

definition replaceAll :: "char \<Rightarrow> string \<Rightarrow> string \<Rightarrow> string" where
  "replaceAll c r s = concat (map (\<lambda>x. if x = c then r else [x]) s)"

text \<open>
  \<^verbatim>\<open>escapeXML\<close>: nothing for a missing or empty text (\<^verbatim>\<open>!text\<close>), else the five
  replacements one after the other, the ampersand first.
\<close>

definition escapeXML :: "string option \<Rightarrow> string" where
  "escapeXML t =
     (case t of
        None \<Rightarrow> []
      | Some s \<Rightarrow>
          if s = [] then []
          else replaceAll (CHR 0x27) ''&apos;''
                 (replaceAll (CHR 0x22) ''&quot;''
                    (replaceAll (CHR ''>'') ''&gt;''
                       (replaceAll (CHR ''<'') ''&lt;''
                          (replaceAll (CHR ''&'') ''&amp;'' s)))))"

text \<open>
  The escaping rule in the specification's words: each of the five special characters is
  replaced by its entity, every other character stays.
\<close>

definition xml_entity :: "char \<Rightarrow> string" where
  "xml_entity c =
     (if c = CHR ''&'' then ''&amp;''
      else if c = CHR ''<'' then ''&lt;''
      else if c = CHR ''>'' then ''&gt;''
      else if c = CHR 0x22 then ''&quot;''
      else if c = CHR 0x27 then ''&apos;''
      else [c])"

definition xml_escaped :: "string \<Rightarrow> string" where
  "xml_escaped s = concat (map xml_entity s)"

text \<open>
  How a template literal prints a number and a \<^verbatim>\<open>Date\<close>, and \<^verbatim>\<open>toISOString\<close>: given.
\<close>

record printer =
  numStr :: "real \<Rightarrow> string"
  dateStr :: "int \<Rightarrow> string"
  toISOString :: "int \<Rightarrow> string"

definition nl :: string where
  "nl = [CHR 0x0A]"

text \<open>\<^verbatim>\<open>x || ''\<close> and \<^verbatim>\<open>xs?.join(sep) || ''\<close>.\<close>

definition or_empty :: "string option \<Rightarrow> string" where
  "or_empty x = (case x of None \<Rightarrow> [] | Some v \<Rightarrow> v)"

definition join_or_empty :: "string \<Rightarrow> string list option \<Rightarrow> string" where
  "join_or_empty sep xs = (case xs of None \<Rightarrow> [] | Some ys \<Rightarrow> join sep ys)"

text \<open>The lines \<^verbatim>\<open>generateSimpleXML\<close> adds for one query, and for one insight.\<close>

definition xml_query_lines :: "printer \<Rightarrow> WeatherQuery \<Rightarrow> string list" where
  "xml_query_lines P q =
     [''    <query id='' @ dquote @ oid q @ dquote @ ''>'' @ nl,
      ''      <location>'' @ escapeXML (Some (location q)) @ ''</location>'' @ nl,
      ''      <dateRange>'' @ nl,
      ''        <startDate>'' @ startDate (dateRange q) @ ''</startDate>'' @ nl,
      ''        <endDate>'' @ endDate (dateRange q) @ ''</endDate>'' @ nl,
      ''      </dateRange>'' @ nl,
      ''      <weatherData>'' @ nl,
      ''        <temperature>'' @ numStr P (temperature (weatherData q)) @ ''</temperature>'' @ nl,
      ''        <description>'' @ escapeXML (Some (description (weatherData q)))
        @ ''</description>'' @ nl,
      ''        <humidity>'' @ numStr P (humidity (weatherData q)) @ ''</humidity>'' @ nl,
      ''        <windSpeed>'' @ numStr P (windSpeed (weatherData q)) @ ''</windSpeed>'' @ nl,
      ''        <feelsLike>'' @ numStr P (feelsLike (weatherData q)) @ ''</feelsLike>'' @ nl,
      ''        <pressure>'' @ numStr P (pressure (weatherData q)) @ ''</pressure>'' @ nl,
      ''        <visibility>'' @ numStr P (visibility (weatherData q)) @ ''</visibility>'' @ nl,
      ''      </weatherData>'' @ nl,
      ''      <metadata>'' @ nl,
      ''        <createdAt>'' @ dateStr P (createdAt q) @ ''</createdAt>'' @ nl,
      ''        <userNotes>'' @ escapeXML (Some (or_empty (userNotes q))) @ ''</userNotes>'' @ nl,
      ''        <tags>'' @ escapeXML (Some (join_or_empty '', '' (tags q))) @ ''</tags>'' @ nl,
      ''      </metadata>'' @ nl,
      ''    </query>'' @ nl]"

definition xml_insight_lines :: "printer \<Rightarrow> AIInsight \<Rightarrow> string list" where
  "xml_insight_lines P i =
     [''    <insight id='' @ dquote @ ai_oid i @ dquote @ '' queryId='' @ dquote @ queryId i
        @ dquote @ ''>'' @ nl,
      ''      <location>'' @ escapeXML (Some (ai_location i)) @ ''</location>'' @ nl,
      ''      <insight>'' @ escapeXML (Some (insight i)) @ ''</insight>'' @ nl,
      ''      <recommendations>'' @ escapeXML (Some (join_or_empty '' | '' (recommendations i)))
        @ ''</recommendations>'' @ nl,
      ''      <weatherSummary>'' @ escapeXML (Some (weatherSummary i)) @ ''</weatherSummary>'' @ nl,
      ''      <travelAdvice>'' @ escapeXML (Some (or_empty (travelAdvice i)))
        @ ''</travelAdvice>'' @ nl,
      ''      <clothingRecommendations>''
        @ escapeXML (Some (join_or_empty '' | '' (clothingRecommendations i)))
        @ ''</clothingRecommendations>'' @ nl,
      ''      <activitySuggestions>''
        @ escapeXML (Some (join_or_empty '' | '' (activitySuggestions i)))
        @ ''</activitySuggestions>'' @ nl,
      ''      <metadata>'' @ nl,
      ''        <generatedAt>'' @ dateStr P (generatedAt i) @ ''</generatedAt>'' @ nl,
      ''        <model>'' @ escapeXML (Some (model i)) @ ''</model>'' @ nl,
      ''      </metadata>'' @ nl,
      ''    </insight>'' @ nl]"

definition generateSimpleXML ::
  "printer \<Rightarrow> int \<Rightarrow> WeatherQuery list \<Rightarrow> AIInsight list \<Rightarrow> string \<Rightarrow> string" where
  "generateSimpleXML P now queries insights timestamp =
     ''<?xml version='' @ dquote @ ''1.0'' @ dquote @ '' encoding='' @ dquote @ ''UTF-8''
       @ dquote @ ''?>'' @ nl
     @ ''<skyCastExport exportedAt='' @ dquote @ toISOString P now @ dquote
       @ '' format='' @ dquote @ ''xml'' @ dquote
       @ '' totalQueries='' @ dquote @ decimal (length queries) @ dquote
       @ '' totalInsights='' @ dquote @ decimal (length insights) @ dquote @ ''>'' @ nl
     @ ''  <weatherQueries>'' @ nl
     @ concat (map (\<lambda>q. concat (xml_query_lines P q)) queries)
     @ ''  </weatherQueries>'' @ nl
     @ ''  <aiInsights>'' @ nl
     @ concat (map (\<lambda>i. concat (xml_insight_lines P i)) insights)
     @ ''  </aiInsights>'' @ nl
     @ ''</skyCastExport>'' @ nl"

subsection \<open>Notions the properties are stated with\<close>

text \<open>
  A date range is ordered when both its dates parse and the start is not after the end; a
  database is ordered when the range of every stored query is.
\<close>

definition range_ordered :: "(string \<Rightarrow> int option) \<Rightarrow> DateRange \<Rightarrow> bool" where
  "range_ordered parse r =
     (case (parse (startDate r), parse (endDate r)) of
        (Some s, Some e) \<Rightarrow> s \<le> e
      | _ \<Rightarrow> False)"

definition store_ordered :: "(string \<Rightarrow> int option) \<Rightarrow> store \<Rightarrow> bool" where
  "store_ordered parse db = list_all (\<lambda>q. range_ordered parse (dateRange q)) (weather_queries db)"

text \<open>The chain of the five replacements of \<^verbatim>\<open>escapeXML\<close>, by a name.\<close>

definition replace_five :: "string \<Rightarrow> string" where
  "replace_five s =
     replaceAll (CHR 0x27) ''&apos;''
       (replaceAll (CHR 0x22) ''&quot;''
          (replaceAll (CHR ''>'') ''&gt;''
             (replaceAll (CHR ''<'') ''&lt;''
                (replaceAll (CHR ''&'') ''&amp;'' s))))"

text \<open>An element whose text content is escaped: \<open><tag>escaped body</tag>\<close>.\<close>

definition xml_element :: "string \<Rightarrow> string \<Rightarrow> string" where
  "xml_element tag body = ''<'' @ tag @ ''>'' @ xml_escaped body @ ''</'' @ tag @ ''>''"

subsection \<open>Example values\<close>

text \<open>
  A clock reading, 2025-11-03 12:00:00 UTC, and the time values \<^verbatim>\<open>parseISO\<close> gives four
  date strings (midnight of each day).
\<close>

definition ex_now :: int where
  "ex_now = 1762171200000"

definition ex_parseISO :: "string \<Rightarrow> int option" where
  "ex_parseISO =
     map_of [(''2025-11-04'', 1762214400000), (''2025-11-06'', 1762387200000),
             (''2025-11-07'', 1762473600000), (''2025-11-11'', 1762819200000)]"

definition ex_London :: WeatherData where
  "ex_London =
     \<lparr>name = ''London'', country = ''GB'', temperature = 12, description = ''light rain'',
      icon = ''10d'', feelsLike = 10, humidity = 81, pressure = 1012, windSpeed = 14,
      windDirection = 240, visibility = 10, uvIndex = None, clouds = 75,
      sunrise = 1762153200, sunset = 1762187400\<rparr>"

definition ex_Paris :: WeatherData where
  "ex_Paris =
     \<lparr>name = ''Paris'', country = ''FR'', temperature = 14, description = ''clear sky'',
      icon = ''01d'', feelsLike = 13, humidity = 60, pressure = 1018, windSpeed = 9,
      windDirection = 200, visibility = 10, uvIndex = None, clouds = 0,
      sunrise = 1762152000, sunset = 1762187000\<rparr>"

definition ex_London_forecast :: ForecastData where
  "ex_London_forecast =
     \<lparr>city_name = ''London'', city_country = ''GB'',
      forecast_list =
        [\<lparr>date = ''Tue, Nov 4'', temperature_min = 9, temperature_max = 13,
          fi_description = ''light rain'', fi_icon = ''10d'', fi_humidity = 80,
          fi_windSpeed = 15, pop = 60\<rparr>]\<rparr>"

definition ex_gazetteer_London :: LocationMatch where
  "ex_gazetteer_London =
     \<lparr>lm_name = ''London'', lm_country = ''GB'', lm_state = None,
      lm_coordinates = \<lparr>lat = 51.5, lon = - 0.1\<rparr>, confidence = 0\<rparr>"

text \<open>The three string methods on ASCII strings.\<close>

definition ex_toLowerCase_char :: "char \<Rightarrow> char" where
  "ex_toLowerCase_char c =
     (let n = (of_char c :: nat) in if 65 \<le> n \<and> n \<le> 90 then char_of (n + 32) else c)"

definition ex_isWhitespace :: "char \<Rightarrow> bool" where
  "ex_isWhitespace c = ((of_char c :: nat) \<in> {9, 10, 11, 12, 13, 32})"

definition ex_trim :: "string \<Rightarrow> string" where
  "ex_trim s = rev (dropWhile ex_isWhitespace (rev (dropWhile ex_isWhitespace s)))"

fun ex_replaceWhitespaceRuns :: "string \<Rightarrow> string" where
  "ex_replaceWhitespaceRuns [] = []"
| "ex_replaceWhitespaceRuns (c # cs) =
     (if ex_isWhitespace c
      then (case cs of
              [] \<Rightarrow> [CHR '' '']
            | d # ds \<Rightarrow>
                if ex_isWhitespace d then ex_replaceWhitespaceRuns cs
                else CHR '' '' # ex_replaceWhitespaceRuns cs)
      else c # ex_replaceWhitespaceRuns cs)"

definition ex_env :: env where
  "ex_env =
     \<lparr>dateParser = ex_parseISO,
      clock = ex_now,
      fuseScore = (\<lambda>pattern entry. if lm_name entry = ''London'' then Some 0.1 else None),
      currentWeatherResponse = (\<lambda>n. map_of [(''London'', ex_London), (''Paris'', ex_Paris)]),
      forecastResponse = (\<lambda>n. map_of [(''London'', ex_London_forecast)]),
      objectId = (\<lambda>s. if length s = 24 then Inr s else Inl (Error ''not a 24 character hex string'')),
      insertedId = ''690800000000000000000002'',
      matchesQuery = (\<lambda>query d. True),
      toLowerCase = map ex_toLowerCase_char,
      trim = ex_trim,
      replaceWhitespaceRuns = ex_replaceWhitespaceRuns\<rparr>"

definition ex_q1 :: WeatherQuery where
  "ex_q1 =
     \<lparr>oid = ''690800000000000000000001'', location = ''London'', locationNormalized = ''london'',
      coordinates = Some \<lparr>lat = 0, lon = 0\<rparr>,
      dateRange = \<lparr>startDate = ''2025-11-04'', endDate = ''2025-11-07''\<rparr>,
      weatherData = ex_London, forecastData = Some ex_London_forecast,
      createdAt = 1762000000000, updatedAt = 1762000000000,
      tags = Some [''trip''], userNotes = Some ''first''\<rparr>"

definition ex_insight1 :: AIInsight where
  "ex_insight1 =
     \<lparr>ai_oid = ''6908000000000000000000a1'', queryId = ''690800000000000000000001'',
      ai_location = ''London'', insight = ''Rain <likely> & wind'',
      recommendations = Some [''Take an umbrella''], weatherSummary = ''Wet'',
      travelAdvice = None, clothingRecommendations = None, activitySuggestions = None,
      generatedAt = 1762000001000, model = ''some-model''\<rparr>"

definition ex_db :: store where
  "ex_db = \<lparr>weather_queries = [ex_q1], ai_insights = [ex_insight1], writes = []\<rparr>"

definition ex_request :: CreateWeatherQueryRequest where
  "ex_request =
     \<lparr>req_location = ''London'',
      req_dateRange = \<lparr>startDate = ''2025-11-04'', endDate = ''2025-11-07''\<rparr>,
      req_userNotes = Some ''umbrella?'', req_tags = None\<rparr>"

definition ex_created :: WeatherQuery where
  "ex_created =
     \<lparr>oid = ''690800000000000000000002'', location = ''London'', locationNormalized = ''london'',
      coordinates = Some \<lparr>lat = 0, lon = 0\<rparr>,
      dateRange = \<lparr>startDate = ''2025-11-04'', endDate = ''2025-11-07''\<rparr>,
      weatherData = ex_London, forecastData = Some ex_London_forecast,
      createdAt = ex_now, updatedAt = ex_now,
      tags = Some [], userNotes = Some ''umbrella?''\<rparr>"

definition ex_to_Paris :: UpdateWeatherQueryRequest where
  "ex_to_Paris =
     \<lparr>upd_location = Some ''Paris'', upd_dateRange = None, upd_userNotes = None, upd_tags = None\<rparr>"

definition ex_q1_in_Paris :: WeatherQuery where
  "ex_q1_in_Paris =
     \<lparr>oid = ''690800000000000000000001'', location = ''Paris'', locationNormalized = ''paris'',
      coordinates = Some \<lparr>lat = 0, lon = 0\<rparr>,
      dateRange = \<lparr>startDate = ''2025-11-04'', endDate = ''2025-11-07''\<rparr>,
      weatherData = ex_Paris, forecastData = Some ex_London_forecast,
      createdAt = 1762000000000, updatedAt = ex_now,
      tags = Some [''trip''], userNotes = Some ''first''\<rparr>"

definition ex_db_created :: store where
  "ex_db_created =
     \<lparr>weather_queries = [ex_q1, ex_created], ai_insights = [ex_insight1],
      writes = [InsertQuery ''690800000000000000000002'']\<rparr>"

definition ex_shorter :: UpdateWeatherQueryRequest where
  "ex_shorter =
     \<lparr>upd_location = None,
      upd_dateRange = Some \<lparr>startDate = ''2025-11-06'', endDate = ''2025-11-07''\<rparr>,
      upd_userNotes = None, upd_tags = None\<rparr>"

definition ex_q1_shorter :: WeatherQuery where
  "ex_q1_shorter =
     ex_q1\<lparr>dateRange := \<lparr>startDate = ''2025-11-06'', endDate = ''2025-11-07''\<rparr>,
           updatedAt := ex_now\<rparr>"

definition ex_db_shorter :: store where
  "ex_db_shorter =
     \<lparr>weather_queries = [ex_q1_shorter], ai_insights = [ex_insight1],
      writes = [UpdateQuery ''690800000000000000000001'']\<rparr>"

definition ex_backwards :: DateRange where
  "ex_backwards = \<lparr>startDate = ''2025-11-07'', endDate = ''2025-11-04''\<rparr>"

definition ex_request_backwards :: CreateWeatherQueryRequest where
  "ex_request_backwards =
     \<lparr>req_location = ''London'', req_dateRange = ex_backwards,
      req_userNotes = None, req_tags = None\<rparr>"

definition ex_update_backwards :: UpdateWeatherQueryRequest where
  "ex_update_backwards =
     \<lparr>upd_location = None, upd_dateRange = Some ex_backwards,
      upd_userNotes = None, upd_tags = None\<rparr>"

definition ex_env_flaky :: env where
  "ex_env_flaky =
     ex_env\<lparr>currentWeatherResponse :=
               (\<lambda>n. if n = 0 then map_of [(''London'', ex_London)] else Map.empty)\<rparr>"

definition ex_request_Paris :: CreateWeatherQueryRequest where
  "ex_request_Paris =
     \<lparr>req_location = ''Paris'',
      req_dateRange = \<lparr>startDate = ''2025-11-04'', endDate = ''2025-11-07''\<rparr>,
      req_userNotes = None, req_tags = Some [''weekend'']\<rparr>"

definition ex_created_Paris :: WeatherQuery where
  "ex_created_Paris =
     \<lparr>oid = ''690800000000000000000002'', location = ''Paris'', locationNormalized = ''paris'',
      coordinates = Some \<lparr>lat = 0, lon = 0\<rparr>,
      dateRange = \<lparr>startDate = ''2025-11-04'', endDate = ''2025-11-07''\<rparr>,
      weatherData = ex_Paris, forecastData = None,
      createdAt = ex_now, updatedAt = ex_now,
      tags = Some [''weekend''], userNotes = Some ''''\<rparr>"

definition ex_request_Londn :: CreateWeatherQueryRequest where
  "ex_request_Londn =
     \<lparr>req_location = ''Londn'',
      req_dateRange = \<lparr>startDate = ''2025-11-04'', endDate = ''2025-11-07''\<rparr>,
      req_userNotes = None, req_tags = None\<rparr>"

definition ex_db_deleted :: store where
  "ex_db_deleted =
     \<lparr>weather_queries = [], ai_insights = [],
      writes = [DeleteInsightsOf ''690800000000000000000001'',
                DeleteQuery ''690800000000000000000001'']\<rparr>"

definition ex_notes_only :: UpdateWeatherQueryRequest where
  "ex_notes_only =
     \<lparr>upd_location = None, upd_dateRange = None,
      upd_userNotes = Some ''bring an umbrella'', upd_tags = None\<rparr>"

definition ex_q1_noted :: WeatherQuery where
  "ex_q1_noted = ex_q1\<lparr>userNotes := Some ''bring an umbrella'', updatedAt := ex_now\<rparr>"



definition ex_printer :: printer where
  "ex_printer =
     \<lparr>numStr = (\<lambda>x. ''0''), dateStr = (\<lambda>t. ''Mon Nov 03 2025''),
      toISOString = (\<lambda>t. ''2025-11-03T12:00:00.000Z'')\<rparr>"

definition ex_q1_markup :: WeatherQuery where
  "ex_q1_markup = ex_q1\<lparr>userNotes := Some (''5 < 6 & '' @ dquote @ ''rain'' @ dquote)\<rparr>"

section \<open>Properties\<close>

subsection \<open>The calendar: the year of a day\<close>

lemma DayFromYear_1970: "DayFromYear 1970 = 0"
  by (simp add: DayFromYear_def)

lemma DayFromYear_lower_up: "0 \<le> m \<Longrightarrow> 365 * m \<le> DayFromYear (1970 + m)"
proof (induction m rule: int_ge_induct)
  case base
  then show ?case
    by (simp add: DayFromYear_1970)
next
  case (step i)
  have "DayFromYear (1970 + (i + 1)) = DayFromYear (1970 + i) + DaysInYear (1970 + i)"
    using DayFromYear_Suc[of "1970 + i"] by (simp add: add.assoc)
  with step DaysInYear_cases[of "1970 + i"] show ?case
    by auto
qed

lemma DayFromYear_lower_down: "m \<le> 0 \<Longrightarrow> 366 * m \<le> DayFromYear (1970 + m)"
proof (induction m rule: int_le_induct)
  case base
  then show ?case
    by (simp add: DayFromYear_1970)
next
  case (step i)
  have "DayFromYear (1970 + i) = DayFromYear (1970 + (i - 1)) + DaysInYear (1970 + (i - 1))"
    using DayFromYear_Suc[of "1970 + (i - 1)"] by simp
  with step DaysInYear_cases[of "1970 + (i - 1)"] show ?case
    by auto
qed

lemma year_down_correct:
  "d < DayFromYear (y + 1) \<Longrightarrow>
   DayFromYear (year_down d y) \<le> d \<and> d < DayFromYear (year_down d y + 1)"
proof (induction d y rule: year_down.induct)
  case (1 d y)
  show ?case
  proof (cases "DayFromYear y \<le> d")
    case True
    with "1.prems" show ?thesis
      by (simp add: year_down.simps[of d y])
  next
    case False
    then have "d < DayFromYear (y - 1 + 1)"
      by simp
    with "1.IH"[OF False] False show ?thesis
      by (simp add: year_down.simps[of d y])
  qed
qed

text \<open>\<^verbatim>\<open>YearFromTime\<close> is the year that holds the day of \<open>t\<close>.\<close>

lemma YearFromTime_correct:
  "DayFromYear (YearFromTime t) \<le> Day t \<and> Day t < DayFromYear (YearFromTime t + 1)"
proof -
  define d where "d = Day t"
  define y where "y = 1970 + (if 0 \<le> d then d div 365 else d div 366)"
  have "d < DayFromYear (y + 1)"
  proof (cases "0 \<le> d")
    case True
    then have "365 * (d div 365 + 1) \<le> DayFromYear (1970 + (d div 365 + 1))"
      by (intro DayFromYear_lower_up) (simp add: pos_imp_zdiv_nonneg_iff)
    moreover have "d < 365 * (d div 365 + 1)"
      by presburger
    ultimately show ?thesis
      using True by (simp add: y_def add.assoc)
  next
    case False
    then have "d div 366 + 1 \<le> 0"
      by presburger
    then have "366 * (d div 366 + 1) \<le> DayFromYear (1970 + (d div 366 + 1))"
      by (rule DayFromYear_lower_down)
    moreover have "d < 366 * (d div 366 + 1)"
      by presburger
    ultimately show ?thesis
      using False by (simp add: y_def add.assoc)
  qed
  from year_down_correct[OF this] have
    "DayFromYear (year_down d y) \<le> d \<and> d < DayFromYear (year_down d y + 1)" .
  moreover have "YearFromTime t = year_down d y"
    by (simp add: YearFromTime_def Let_def d_def y_def)
  ultimately show ?thesis
    by (simp add: d_def)
qed

lemma DayWithinYear_range: "0 \<le> DayWithinYear t \<and> DayWithinYear t < DaysInYear (YearFromTime t)"
  using YearFromTime_correct[of t] DayFromYear_Suc[of "YearFromTime t"]
  by (simp add: DayWithinYear_def)

subsection \<open>The calendar: five days ahead, one year back\<close>

lemma MonthFromTime_range: "0 \<le> MonthFromTime t \<and> MonthFromTime t \<le> 11"
  by (simp add: MonthFromTime_def Let_def)

lemma MakeDay_same_month:
  "MakeDay (YearFromTime t) (MonthFromTime t) d = Day t + (d - DateFromTime t)"
proof -
  have m: "MonthFromTime t div 12 = 0" "MonthFromTime t mod 12 = MonthFromTime t"
    using MonthFromTime_range[of t] by simp_all
  show ?thesis
    by (simp add: MakeDay_def Let_def m DateFromTime_def DayWithinYear_def InLeapYear_def)
qed

lemma Day_split: "Day t * msPerDay + TimeWithinDay t = t"
  by (simp add: Day_def TimeWithinDay_def)

lemma fiveDaysFromNow_eq: "fiveDaysFromNow t = t + 5 * msPerDay"
proof -
  have "fiveDaysFromNow t = (Day t + 5) * msPerDay + TimeWithinDay t"
    by (simp add: fiveDaysFromNow_def setDate_def getDate_def MakeDate_def MakeDay_same_month)
  also have "\<dots> = t + 5 * msPerDay"
    using Day_split[of t] by (simp add: algebra_simps)
  finally show ?thesis .
qed

lemma leap_not_twice: "DaysInYear (y - 1) = 366 \<Longrightarrow> DaysInYear y = 365"
proof -
  assume "DaysInYear (y - 1) = 366"
  then have "(y - 1) mod 4 = 0"
    by (simp add: DaysInYear_def split: if_splits)
  then have "y mod 4 \<noteq> 0"
    by presburger
  then show ?thesis
    by (simp add: DaysInYear_def)
qed

lemma DaysBeforeMonth_leap:
  "DaysBeforeMonth m True = DaysBeforeMonth m False \<or>
   DaysBeforeMonth m True = DaysBeforeMonth m False + 1"
  by (simp add: DaysBeforeMonth_def Let_def)

lemma MakeDay_year_before:
  "Day t - 366 \<le> MakeDay (YearFromTime t - 1) (MonthFromTime t) (DateFromTime t) \<and>
   MakeDay (YearFromTime t - 1) (MonthFromTime t) (DateFromTime t) \<le> Day t - 365"
proof -
  define y where "y = YearFromTime t"
  define m where "m = MonthFromTime t"
  have m: "m div 12 = 0" "m mod 12 = m"
    using MonthFromTime_range[of t] by (simp_all add: m_def)
  have step: "DayFromYear y = DayFromYear (y - 1) + DaysInYear (y - 1)"
    using DayFromYear_Suc[of "y - 1"] by simp
  have eq: "MakeDay (y - 1) m (DateFromTime t) =
      Day t - DaysInYear (y - 1) + DaysBeforeMonth m (DaysInYear (y - 1) = 366)
        - DaysBeforeMonth m (DaysInYear y = 366)"
    by (simp add: MakeDay_def Let_def m DateFromTime_def DayWithinYear_def InLeapYear_def
        step flip: y_def m_def)
  show ?thesis
  proof (cases "DaysInYear (y - 1) = 366")
    case True
    with leap_not_twice[of y] have "DaysInYear y = 365" by simp
    with True eq DaysBeforeMonth_leap[of m] show ?thesis
      by (auto simp flip: y_def m_def)
  next
    case False
    with DaysInYear_cases[of "y - 1"] have "DaysInYear (y - 1) = 365" by simp
    with eq DaysBeforeMonth_leap[of m] show ?thesis
      by (cases "DaysInYear y = 366") (auto simp flip: y_def m_def)
  qed
qed

lemma oneYearAgo_bounds:
  "t - 366 * msPerDay \<le> oneYearAgo t \<and> oneYearAgo t \<le> t - 365 * msPerDay"
proof -
  define d where "d = MakeDay (YearFromTime t - 1) (MonthFromTime t) (DateFromTime t)"
  have b: "Day t - 366 \<le> d" "d \<le> Day t - 365"
    using MakeDay_year_before[of t] by (simp_all add: d_def)
  have e: "oneYearAgo t = d * msPerDay + TimeWithinDay t"
    by (simp add: oneYearAgo_def setFullYear_def getFullYear_def MakeDate_def d_def)
  have p: "0 < msPerDay"
    by (simp add: msPerDay_def)
  have "(Day t - 366) * msPerDay \<le> d * msPerDay" "d * msPerDay \<le> (Day t - 365) * msPerDay"
    using b p by (simp_all add: mult_right_mono)
  with e Day_split[of t] show ?thesis
    by (simp add: algebra_simps)
qed

subsection \<open>Date range validation\<close>

text \<open>The ranges the validator accepts: ordered, not older than a year, ending within the horizon.\<close>

lemma validateDateRange_within_horizon:
  assumes "parseISO (startDate dr) = Some s"
    and "parseISO (endDate dr) = Some e"
    and "s \<le> e"
    and "now - 365 * msPerDay \<le> s \<or> oneYearAgo now \<le> s"
    and "e \<le> now + 5 * msPerDay"
  shows "validateDateRange parseISO now dr =
           \<lparr>isValid = True, errors = [], adjustedRange = Some dr\<rparr>"
proof -
  have "oneYearAgo now \<le> s"
    using oneYearAgo_bounds[of now] assms(4) by auto
  with assms show ?thesis
    by (simp add: validateDateRange_def Let_def isAfter_def isBefore_def fiveDaysFromNow_eq)
qed

text \<open>
  \<^bold>\<open>C1\<close>, with the end bounded too. A date range whose two dates parse, with start \<open>\<le>\<close> end, end at most
  5 days after start, start at most one year before the clock (365 days, or more
  generally not before the clock's date and time of the year before) and at most 5 days
  after it, and moreover end at most 5 days after the clock, is accepted: \<^verbatim>\<open>isValid\<close> is
  true, there are no errors and the adjusted range is the input range.
\<close>

theorem validateDateRange_accepts:
  assumes "parseISO (startDate dr) = Some s"
    and "parseISO (endDate dr) = Some e"
    and "s \<le> e"
    and "e \<le> s + 5 * msPerDay"
    and "now - 365 * msPerDay \<le> s \<or> oneYearAgo now \<le> s"
    and "s \<le> now + 5 * msPerDay"
    and "e \<le> now + 5 * msPerDay"
  shows "validateDateRange parseISO now dr =
           \<lparr>isValid = True, errors = [], adjustedRange = Some dr\<rparr>"
  using assms(1,2,3,5,7) by (rule validateDateRange_within_horizon)

theorem validateDateRange_accepts_witness:
  "ex_parseISO ''2025-11-04'' = Some 1762214400000 \<and>
   ex_parseISO ''2025-11-07'' = Some 1762473600000 \<and>
   validateDateRange ex_parseISO ex_now \<lparr>startDate = ''2025-11-04'', endDate = ''2025-11-07''\<rparr> =
     \<lparr>isValid = True, errors = [],
      adjustedRange = Some \<lparr>startDate = ''2025-11-04'', endDate = ''2025-11-07''\<rparr>\<rparr>"
  using validateDateRange_accepts[of ex_parseISO "\<lparr>startDate = ''2025-11-04'', endDate = ''2025-11-07''\<rparr>"
      1762214400000 1762473600000 ex_now]
  by (simp add: ex_parseISO_def ex_now_def msPerDay_def)

text \<open>
  Without the bound on the end date the range is refused: on 2025-11-03 the range from
  2025-11-06 to 2025-11-11 starts within the horizon and is 5 days long, its end is
  beyond the horizon, and the validator answers with the advisory error and the default
  range.
\<close>

theorem validateDateRange_end_beyond_horizon_counterexample:
  "ex_parseISO ''2025-11-06'' = Some 1762387200000 \<and>
   ex_parseISO ''2025-11-11'' = Some 1762819200000 \<and>
   (1762387200000::int) \<le> 1762819200000 \<and>
   1762819200000 \<le> 1762387200000 + 5 * msPerDay \<and>
   ex_now - 365 * msPerDay \<le> 1762387200000 \<and>
   1762387200000 \<le> ex_now + 5 * msPerDay \<and>
   validateDateRange ex_parseISO ex_now \<lparr>startDate = ''2025-11-06'', endDate = ''2025-11-11''\<rparr> =
     \<lparr>isValid = False,
      errors = [''For long-term planning beyond 5 days, consider using current weather patterns and seasonal trends''],
      adjustedRange = Some \<lparr>startDate = ''2025-11-03'', endDate = ''2025-11-08''\<rparr>\<rparr>"
  by code_simp

subsection \<open>Lists\<close>

lemma find_snoc: "find P (xs @ [x]) = (case find P xs of None \<Rightarrow> (if P x then Some x else None) | Some y \<Rightarrow> Some y)"
  by (induction xs) simp_all

lemma find_Some_mem: "find Q xs = Some x \<Longrightarrow> x \<in> set xs"
  by (induction xs) (auto split: if_splits)

lemma find_Some_holds: "find P xs = Some x \<Longrightarrow> P x"
  by (induction xs) (auto split: if_splits)

lemma find_filter_neq: "find (\<lambda>d. f d = k) (filter (\<lambda>d. f d \<noteq> k) xs) = None"
  by (simp add: find_None_iff)

lemma find_replace_first:
  "find P xs = Some x \<Longrightarrow> P y \<Longrightarrow> find P (replace_first P y xs) = Some y"
  by (induction xs) (auto split: if_splits)

lemma replace_first_all:
  "list_all P xs \<Longrightarrow> P y \<Longrightarrow> list_all P (replace_first Q y xs)"
  by (induction xs) auto

lemma replace_first_mem:
  "find Q xs = Some x \<Longrightarrow> y \<in> set (replace_first Q y xs)"
  by (induction xs) (auto split: if_splits)

lemma remove_first_filter:
  "distinct (map f xs) \<Longrightarrow> remove_first (\<lambda>d. f d = k) xs = filter (\<lambda>d. f d \<noteq> k) xs"
proof (induction xs)
  case Nil
  then show ?case by simp
next
  case (Cons x xs)
  show ?case
  proof (cases "f x = k")
    case True
    with Cons.prems have "\<forall>d \<in> set xs. f d \<noteq> k"
      by (auto simp: image_iff)
    then have "filter (\<lambda>d. f d \<noteq> k) xs = xs"
      by (simp add: filter_id_conv)
    with True show ?thesis
      by simp
  next
    case False
    with Cons show ?thesis
      by simp
  qed
qed

lemma remove_first_absent: "find P xs = None \<Longrightarrow> remove_first P xs = xs"
  by (induction xs) (auto split: if_splits)

subsection \<open>Validation and location matching\<close>

lemma validateDateRange_valid:
  assumes "isValid (validateDateRange parseISO now r)"
  shows "adjustedRange (validateDateRange parseISO now r) = Some r"
    and "\<exists>s e. parseISO (startDate r) = Some s \<and> parseISO (endDate r) = Some e \<and> s \<le> e"
  using assms
  by (auto simp: validateDateRange_def Let_def isAfter_def split: option.splits if_splits)

lemma range_ordered_valid:
  "isValid (validateDateRange parse t r) \<Longrightarrow> range_ordered parse r"
  using validateDateRange_valid(2)[of parse t r] by (auto simp: range_ordered_def)

lemma Fuse_search_empty: "fuse_collection fz = [] \<Longrightarrow> Fuse_search score fz pattern = []"
  by (simp add: Fuse_search_def)

lemma validateLocation_coordinates:
  "m \<in> set (validateLocation this E loc) \<Longrightarrow> lm_coordinates m = \<lparr>lat = 0, lon = 0\<rparr>"
  by (auto simp: validateLocation_def split: sum.splits)

subsection \<open>Create and update, read off their results\<close>

text \<open>What a successful create did.\<close>

lemma createWeatherQuery_Inr:
  assumes "createWeatherQuery this E db request = (Inr q, db')"
  shows "\<exists>bestMatch rest w.
           isValid (validateDateRange (dateParser E) (clock E) (req_dateRange request)) \<and>
           validateLocation this E (req_location request) = bestMatch # rest \<and>
           getCurrentWeather E 1
             (if confidence bestMatch > 0.8 then lm_name bestMatch else req_location request) = Inr w \<and>
           findOne db (insertedId E) = None \<and>
           oid q = insertedId E \<and>
           coordinates q = Some (lm_coordinates bestMatch) \<and>
           dateRange q = req_dateRange request \<and>
           weatherData q = w \<and>
           db' = db\<lparr>weather_queries := weather_queries db @ [q],
                     writes := writes db @ [InsertQuery (insertedId E)]\<rparr>"
proof -
  let ?v = "validateDateRange (dateParser E) (clock E) (req_dateRange request)"
  from assms have valid: "isValid ?v"
    by (auto simp: createWeatherQuery_def Let_def split: if_splits)
  then have adj: "adjustedRange ?v = Some (req_dateRange request)"
    by (rule validateDateRange_valid)
  from assms valid obtain bestMatch rest where
    vl: "validateLocation this E (req_location request) = bestMatch # rest"
    by (auto simp: createWeatherQuery_def Let_def split: list.splits)
  let ?final = "if confidence bestMatch > 0.8 then lm_name bestMatch else req_location request"
  from assms valid vl obtain w where w: "getCurrentWeather E 1 ?final = Inr w"
    by (cases "getCurrentWeather E 1 ?final") (auto simp: createWeatherQuery_def Let_def)
  from assms valid vl w adj show ?thesis
    by (auto simp: createWeatherQuery_def Let_def insertOne_def findOne_def find_snoc
        split: sum.splits option.splits if_splits)
qed

lemma createWeatherQuery_Inl:
  assumes "createWeatherQuery this E db request = (Inl e, db')"
  shows "db' = db"
  using assms
  by (auto simp: createWeatherQuery_def Let_def insertOne_def findOne_def find_snoc
      split: if_splits list.splits sum.splits option.splits)

lemma createWeatherQuery_invalid_range:
  assumes "\<not> isValid (validateDateRange (dateParser E) (clock E) (req_dateRange request))"
  shows "createWeatherQuery this E db request =
           (Inl (Error (''Invalid date range: '' @ join '', ''
               (errors (validateDateRange (dateParser E) (clock E) (req_dateRange request))))), db)"
  using assms by (simp add: createWeatherQuery_def Let_def)

lemma handle_location_update_Inr:
  assumes "handle_location_update this E updates u = Inr u'"
    and "upd_location updates = Some loc" and "loc \<noteq> []"
  shows "\<exists>bestMatch rest w.
           validateLocation this E loc = bestMatch # rest \<and>
           getCurrentWeather E 1 (if confidence bestMatch > 0.8 then lm_name bestMatch else loc) = Inr w \<and>
           u' = u\<lparr>set_location := Some loc,
                  set_locationNormalized :=
                    Some (normalizeLocation E (if confidence bestMatch > 0.8 then lm_name bestMatch else loc)),
                  set_coordinates := Some (lm_coordinates bestMatch),
                  set_weatherData := Some w,
                  set_forecastData :=
                    (case getForecast E 0 (if confidence bestMatch > 0.8 then lm_name bestMatch else loc) of
                       Inl _ \<Rightarrow> set_forecastData u
                     | Inr fc \<Rightarrow> Some fc)\<rparr>"
  using assms
  by (auto simp: handle_location_update_def Let_def split: list.splits sum.splits)

lemma handle_location_update_dateRange:
  "handle_location_update this E updates u = Inr u' \<Longrightarrow> set_dateRange u' = set_dateRange u"
  by (auto simp: handle_location_update_def Let_def split: option.splits list.splits sum.splits if_splits)

lemma handle_dateRange_update_Inr:
  assumes "handle_dateRange_update E updates u = Inr u'"
  shows "(upd_dateRange updates = None \<and> u' = u) \<or>
         (\<exists>r. upd_dateRange updates = Some r \<and>
               isValid (validateDateRange (dateParser E) (clock E) r) \<and>
               u' = u\<lparr>set_dateRange := Some r\<rparr>)"
proof (cases "upd_dateRange updates")
  case None
  with assms show ?thesis
    by (simp add: handle_dateRange_update_def)
next
  case (Some r)
  with assms have v: "isValid (validateDateRange (dateParser E) (clock E) r)"
    by (auto simp: handle_dateRange_update_def Let_def split: if_splits)
  from validateDateRange_valid(1)[OF v] assms Some v show ?thesis
    by (auto simp: handle_dateRange_update_def Let_def)
qed

text \<open>
  What an update that did not throw did: it wrote the updated document in the place of
  the stored one, and answered \<^verbatim>\<open>null\<close>.
\<close>

lemma updateWeatherQuery_Inr:
  assumes "updateWeatherQuery this E db qid updates = (Inr x, db')"
  shows "x = None \<and>
         (\<exists>u1 u2 k q.
           handle_location_update this E updates
             \<lparr>set_updatedAt = clock E, set_location = None, set_locationNormalized = None,
              set_coordinates = None, set_weatherData = None, set_forecastData = None,
              set_dateRange = None, set_userNotes = None, set_tags = None\<rparr> = Inr u1 \<and>
           handle_dateRange_update E updates u1 = Inr u2 \<and>
           objectId E qid = Inr k \<and>
           findOne db k = Some q \<and>
           db' = db\<lparr>weather_queries :=
                       replace_first (\<lambda>d. oid d = k)
                         (apply_set (u2\<lparr>set_userNotes := upd_userNotes updates,
                                        set_tags := upd_tags updates\<rparr>) q)
                         (weather_queries db),
                     writes := writes db @ [UpdateQuery k]\<rparr>)"
  using assms
  by (auto simp: updateWeatherQuery_def Let_def findOneAndUpdate_def value_of_def
      split: sum.splits option.splits prod.splits)

lemma updateWeatherQuery_answers_null:
  "fst (updateWeatherQuery this E db qid updates) \<noteq> Inr (Some q')"
  using updateWeatherQuery_Inr[of this E db qid updates "Some q'"
      "snd (updateWeatherQuery this E db qid updates)"]
  by (cases "updateWeatherQuery this E db qid updates") auto

text \<open>For a key that no document has, the update throws and writes nothing.\<close>

lemma updateWeatherQuery_missing:
  assumes "objectId E qid = Inr k"
    and "findOne db k = None"
  shows "\<exists>e. updateWeatherQuery this E db qid updates = (Inl e, db)"
  using assms
  by (auto simp: updateWeatherQuery_def Let_def findOneAndUpdate_def split: sum.splits)

text \<open>An update that throws leaves the database as it was.\<close>

lemma updateWeatherQuery_other:
  assumes "updateWeatherQuery this E db qid updates = (Inl e, db')"
  shows "db' = db"
  using assms
  by (auto simp: updateWeatherQuery_def Let_def findOneAndUpdate_def
      split: sum.splits option.splits prod.splits)

lemma updateWeatherQuery_invalid_range:
  assumes "upd_dateRange updates = Some r"
    and "\<not> isValid (validateDateRange (dateParser E) (clock E) r)"
  shows "\<exists>e. updateWeatherQuery this E db qid updates = (Inl e, db)"
  using assms
  by (auto simp: updateWeatherQuery_def Let_def handle_dateRange_update_def split: sum.splits)

lemma updateWeatherQuery_dateRange:
  assumes "updateWeatherQuery this E db qid updates = (Inr x, db')"
  shows "\<exists>k q q'. objectId E qid = Inr k \<and> findOne db k = Some q \<and>
           db' = db\<lparr>weather_queries := replace_first (\<lambda>d. oid d = k) q' (weather_queries db),
                     writes := writes db @ [UpdateQuery k]\<rparr> \<and>
           oid q' = oid q \<and>
           ((upd_dateRange updates = None \<and> dateRange q' = dateRange q) \<or>
            (\<exists>r. upd_dateRange updates = Some r \<and> dateRange q' = r \<and>
                  isValid (validateDateRange (dateParser E) (clock E) r)))"
proof -
  from updateWeatherQuery_Inr[OF assms] obtain u1 u2 k q where
    u1: "handle_location_update this E updates
           \<lparr>set_updatedAt = clock E, set_location = None, set_locationNormalized = None,
            set_coordinates = None, set_weatherData = None, set_forecastData = None,
            set_dateRange = None, set_userNotes = None, set_tags = None\<rparr> = Inr u1"
    and u2: "handle_dateRange_update E updates u1 = Inr u2"
    and k: "objectId E qid = Inr k"
    and f: "findOne db k = Some q"
    and d: "db' = db\<lparr>weather_queries :=
                        replace_first (\<lambda>d. oid d = k)
                          (apply_set (u2\<lparr>set_userNotes := upd_userNotes updates,
                                         set_tags := upd_tags updates\<rparr>) q)
                          (weather_queries db),
                      writes := writes db @ [UpdateQuery k]\<rparr>"
    by blast
  let ?q' = "apply_set (u2\<lparr>set_userNotes := upd_userNotes updates,
                            set_tags := upd_tags updates\<rparr>) q"
  from handle_location_update_dateRange[OF u1] have n: "set_dateRange u1 = None"
    by simp
  from handle_dateRange_update_Inr[OF u2] n
  have "(upd_dateRange updates = None \<and> dateRange ?q' = dateRange q) \<or>
        (\<exists>r. upd_dateRange updates = Some r \<and> dateRange ?q' = r \<and>
              isValid (validateDateRange (dateParser E) (clock E) r))"
    by (auto simp: apply_set_def)
  moreover have "oid ?q' = oid q"
    by (simp add: apply_set_def)
  ultimately show ?thesis
    using k f d by blast
qed

lemma createWeatherQuery_preserves:
  assumes "store_ordered (dateParser E) db"
  shows "store_ordered (dateParser E) (snd (createWeatherQuery this E db request))"
proof (cases "createWeatherQuery this E db request")
  case (Pair r db')
  show ?thesis
  proof (cases r)
    case (Inl e)
    with Pair createWeatherQuery_Inl[of this E db request e db'] assms show ?thesis
      by simp
  next
    case (Inr q)
    with Pair have run: "createWeatherQuery this E db request = (Inr q, db')"
      by simp
    from createWeatherQuery_Inr[OF run] have
      v: "isValid (validateDateRange (dateParser E) (clock E) (req_dateRange request))"
      and dr: "dateRange q = req_dateRange request"
      and d: "weather_queries db' = weather_queries db @ [q]"
      by auto
    from range_ordered_valid[OF v] dr d assms Pair show ?thesis
      by (simp add: store_ordered_def)
  qed
qed

lemma updateWeatherQuery_preserves:
  assumes "store_ordered (dateParser E) db"
  shows "store_ordered (dateParser E) (snd (updateWeatherQuery this E db qid updates))"
proof (cases "updateWeatherQuery this E db qid updates")
  case (Pair r db')
  show ?thesis
  proof (cases r)
    case (Inl e)
    with Pair updateWeatherQuery_other[of this E db qid updates e db'] assms show ?thesis
      by simp
  next
    case (Inr x)
    with Pair have run: "updateWeatherQuery this E db qid updates = (Inr x, db')"
      by simp
    from updateWeatherQuery_dateRange[OF run] obtain k q q' where
      f: "findOne db k = Some q"
      and d: "weather_queries db' = replace_first (\<lambda>d. oid d = k) q' (weather_queries db)"
      and c: "(upd_dateRange updates = None \<and> dateRange q' = dateRange q) \<or>
              (\<exists>r. upd_dateRange updates = Some r \<and> dateRange q' = r \<and>
                    isValid (validateDateRange (dateParser E) (clock E) r))"
      by auto
    from f have "q \<in> set (weather_queries db)"
      by (simp add: findOne_def find_Some_mem)
    with assms have "range_ordered (dateParser E) (dateRange q)"
      by (simp add: store_ordered_def list_all_iff)
    with c have "range_ordered (dateParser E) (dateRange q')"
      by (auto simp: range_ordered_valid)
    with assms d Pair show ?thesis
      by (simp add: store_ordered_def replace_first_all)
  qed
qed

subsection \<open>Delete and list\<close>

lemma deleteWeatherQuery_existing:
  assumes "distinct (map oid (weather_queries db))"
    and "objectId E qid = Inr k"
    and "findOne db k = Some q"
  shows "deleteWeatherQuery E db qid =
           (Inr True,
            \<lparr>weather_queries = filter (\<lambda>d. oid d \<noteq> k) (weather_queries db),
             ai_insights = filter (\<lambda>i. queryId i \<noteq> qid) (ai_insights db),
             writes = writes db @ [DeleteInsightsOf qid, DeleteQuery k]\<rparr>)"
  using assms
  by (simp add: deleteWeatherQuery_def Let_def deleteOne_def deleteMany_insights_def findOne_def
      remove_first_filter)

lemma deleteWeatherQuery_absent:
  assumes "getWeatherQuery E db qid = None"
  shows "fst (deleteWeatherQuery E db qid) = Inr False \<and>
         weather_queries (snd (deleteWeatherQuery E db qid)) = weather_queries db \<and>
         ai_insights (snd (deleteWeatherQuery E db qid)) =
           filter (\<lambda>i. queryId i \<noteq> qid) (ai_insights db)"
  using assms
  by (auto simp: deleteWeatherQuery_def Let_def deleteOne_def deleteMany_insights_def findOne_def
      getWeatherQuery_def remove_first_absent split: sum.splits)








text \<open>
  A negative page size passes the handlers' \<^verbatim>\<open>Math.min\<close> as it is, and the cursor takes
  its absolute value: the first page then has up to that many records, whatever the cap.
\<close>

lemma handleGet_negative_limit:
  assumes "n < 0"
  shows "handleGet E db filters None (Some n) =
           Inr \<lparr>data = take (nat (- n))
                          (sort_createdAt_desc
                             (filter (matchesQuery E (buildQuery E filters)) (weather_queries db))),
                totalCount =
                  int (length (filter (matchesQuery E (buildQuery E filters)) (weather_queries db))),
                page = 1,
                limit = n,
                totalPages =
                  ceil_div
                    (int (length (filter (matchesQuery E (buildQuery E filters)) (weather_queries db))))
                    n\<rparr>"
  using assms
  by (simp add: handleGet_def handleGet_pageNum_def handleGet_limitNum_def or_default_def
      listWeatherQueries_def Let_def cursor_limit_def abs_if)

subsection \<open>Escaping and the generated document\<close>

lemma replaceAll_Nil: "replaceAll c r [] = []"
  by (simp add: replaceAll_def)

lemma replaceAll_Cons: "replaceAll c r (x # xs) = (if x = c then r else [x]) @ replaceAll c r xs"
  by (simp add: replaceAll_def)

lemma replaceAll_append: "replaceAll c r (xs @ ys) = replaceAll c r xs @ replaceAll c r ys"
  by (simp add: replaceAll_def)

lemma replace_five_Cons: "replace_five (c # s) = xml_entity c @ replace_five s"
  by (simp add: replace_five_def xml_entity_def replaceAll_Cons replaceAll_append replaceAll_Nil)

lemma replace_five_escaped: "replace_five s = xml_escaped s"
  by (induction s) (simp_all add: replace_five_Cons xml_escaped_def, simp add: replace_five_def replaceAll_Nil)

lemma escapeXML_Some: "escapeXML (Some s) = xml_escaped s"
proof -
  have "escapeXML (Some s) = replace_five s"
    by (simp add: escapeXML_def replace_five_def replaceAll_Nil)
  then show ?thesis
    by (simp add: replace_five_escaped)
qed

lemma xml_entity_plain:
  "set (xml_entity c) \<inter> {CHR ''<'', CHR ''>'', CHR 0x22, CHR 0x27} = {}"
  by (simp add: xml_entity_def)

lemma xml_escaped_plain:
  "set (xml_escaped s) \<inter> {CHR ''<'', CHR ''>'', CHR 0x22, CHR 0x27} = {}"
  using xml_entity_plain by (induction s) (auto simp: xml_escaped_def)

lemma sublist_concat_mem: "l \<in> set ls \<Longrightarrow> sublist l (concat ls)"
  by (induction ls) (auto simp: sublist_append)

lemma sublist_concat_map_mem: "x \<in> set xs \<Longrightarrow> sublist (f x) (concat (map f xs))"
  by (rule sublist_concat_mem) simp

lemma sublist_trans: "sublist xs ys \<Longrightarrow> sublist ys zs \<Longrightarrow> sublist xs zs"
  by (rule sublist_order.order.trans)

lemma element_in_line: "sublist (xml_element tag body) (indent @ xml_element tag body @ rest)"
  by (rule sublist_appendI)

lemma query_line_in_output:
  assumes "q \<in> set queries"
    and "l \<in> set (xml_query_lines P q)"
  shows "sublist l (generateSimpleXML P now queries insights timestamp)"
proof -
  have "sublist l (concat (xml_query_lines P q))"
    using assms(2) by (rule sublist_concat_mem)
  moreover have "sublist (concat (xml_query_lines P q))
      (concat (map (\<lambda>q. concat (xml_query_lines P q)) queries))"
    using assms(1) by (rule sublist_concat_map_mem)
  moreover have "sublist (concat (map (\<lambda>q. concat (xml_query_lines P q)) queries))
      (generateSimpleXML P now queries insights timestamp)"
    unfolding generateSimpleXML_def sublist_def
    by (rule exI[of _ "''<?xml version='' @ dquote @ ''1.0'' @ dquote @ '' encoding='' @ dquote @ ''UTF-8''
       @ dquote @ ''?>'' @ nl
     @ ''<skyCastExport exportedAt='' @ dquote @ toISOString P now @ dquote
       @ '' format='' @ dquote @ ''xml'' @ dquote
       @ '' totalQueries='' @ dquote @ decimal (length queries) @ dquote
       @ '' totalInsights='' @ dquote @ decimal (length insights) @ dquote @ ''>'' @ nl
     @ ''  <weatherQueries>'' @ nl"],
        rule exI[of _ "''  </weatherQueries>'' @ nl
     @ ''  <aiInsights>'' @ nl
     @ concat (map (\<lambda>i. concat (xml_insight_lines P i)) insights)
     @ ''  </aiInsights>'' @ nl
     @ ''</skyCastExport>'' @ nl"]) simp
  ultimately show ?thesis
    by (blast intro: sublist_trans)
qed

lemma insight_line_in_output:
  assumes "i \<in> set insights"
    and "l \<in> set (xml_insight_lines P i)"
  shows "sublist l (generateSimpleXML P now queries insights timestamp)"
proof -
  have "sublist l (concat (xml_insight_lines P i))"
    using assms(2) by (rule sublist_concat_mem)
  moreover have "sublist (concat (xml_insight_lines P i))
      (concat (map (\<lambda>i. concat (xml_insight_lines P i)) insights))"
    using assms(1) by (rule sublist_concat_map_mem)
  moreover have "sublist (concat (map (\<lambda>i. concat (xml_insight_lines P i)) insights))
      (generateSimpleXML P now queries insights timestamp)"
    unfolding generateSimpleXML_def sublist_def
    by (rule exI[of _ "''<?xml version='' @ dquote @ ''1.0'' @ dquote @ '' encoding='' @ dquote @ ''UTF-8''
       @ dquote @ ''?>'' @ nl
     @ ''<skyCastExport exportedAt='' @ dquote @ toISOString P now @ dquote
       @ '' format='' @ dquote @ ''xml'' @ dquote
       @ '' totalQueries='' @ dquote @ decimal (length queries) @ dquote
       @ '' totalInsights='' @ dquote @ decimal (length insights) @ dquote @ ''>'' @ nl
     @ ''  <weatherQueries>'' @ nl
     @ concat (map (\<lambda>q. concat (xml_query_lines P q)) queries)
     @ ''  </weatherQueries>'' @ nl
     @ ''  <aiInsights>'' @ nl"],
        rule exI[of _ "''  </aiInsights>'' @ nl @ ''</skyCastExport>'' @ nl"])
      simp
  ultimately show ?thesis
    by (blast intro: sublist_trans)
qed

lemma query_element_in_output:
  assumes "q \<in> set queries"
    and "indent @ xml_element tag body @ nl \<in> set (xml_query_lines P q)"
  shows "sublist (xml_element tag body) (generateSimpleXML P now queries insights timestamp)"
  using element_in_line[of tag body indent nl] query_line_in_output[OF assms]
  by (rule sublist_trans)

lemma insight_element_in_output:
  assumes "i \<in> set insights"
    and "indent @ xml_element tag body @ nl \<in> set (xml_insight_lines P i)"
  shows "sublist (xml_element tag body) (generateSimpleXML P now queries insights timestamp)"
  using element_in_line[of tag body indent nl] insight_line_in_output[OF assms]
  by (rule sublist_trans)

lemma query_lines_elements:
  "''      '' @ xml_element ''location'' (location q) @ nl \<in> set (xml_query_lines P q)"
  "''        '' @ xml_element ''description'' (description (weatherData q)) @ nl
     \<in> set (xml_query_lines P q)"
  "''        '' @ xml_element ''userNotes'' (or_empty (userNotes q)) @ nl
     \<in> set (xml_query_lines P q)"
  "''        '' @ xml_element ''tags'' (join_or_empty '', '' (tags q)) @ nl
     \<in> set (xml_query_lines P q)"
  by (simp_all add: xml_query_lines_def xml_element_def escapeXML_Some)

lemma insight_lines_elements:
  "''      '' @ xml_element ''location'' (ai_location i) @ nl \<in> set (xml_insight_lines P i)"
  "''      '' @ xml_element ''insight'' (insight i) @ nl \<in> set (xml_insight_lines P i)"
  "''      '' @ xml_element ''recommendations'' (join_or_empty '' | '' (recommendations i)) @ nl
     \<in> set (xml_insight_lines P i)"
  "''      '' @ xml_element ''weatherSummary'' (weatherSummary i) @ nl
     \<in> set (xml_insight_lines P i)"
  "''      '' @ xml_element ''travelAdvice'' (or_empty (travelAdvice i)) @ nl
     \<in> set (xml_insight_lines P i)"
  "''      '' @ xml_element ''clothingRecommendations''
       (join_or_empty '' | '' (clothingRecommendations i)) @ nl
     \<in> set (xml_insight_lines P i)"
  "''      '' @ xml_element ''activitySuggestions''
       (join_or_empty '' | '' (activitySuggestions i)) @ nl
     \<in> set (xml_insight_lines P i)"
  "''        '' @ xml_element ''model'' (model i) @ nl \<in> set (xml_insight_lines P i)"
  by (simp_all add: xml_insight_lines_def xml_element_def escapeXML_Some)

subsection \<open>The operations on the example values\<close>

lemma ex_env_simps:
  "dateParser ex_env = ex_parseISO"
  "clock ex_env = ex_now"
  "insertedId ex_env = ''690800000000000000000002''"
  "currentWeatherResponse ex_env n = map_of [(''London'', ex_London), (''Paris'', ex_Paris)]"
  "forecastResponse ex_env n = map_of [(''London'', ex_London_forecast)]"
  "objectId ex_env s = (if length s = 24 then Inr s else Inl (Error ''not a 24 character hex string''))"
  "toLowerCase ex_env = map ex_toLowerCase_char"
  "trim ex_env = ex_trim"
  "replaceWhitespaceRuns ex_env = ex_replaceWhitespaceRuns"
  by (simp_all add: ex_env_def)

lemma ex_lower_cased:
  "ex_replaceWhitespaceRuns (ex_trim (map ex_toLowerCase_char ''London'')) = ''london''"
  "ex_replaceWhitespaceRuns (ex_trim (map ex_toLowerCase_char ''Paris'')) = ''paris''"
  "ex_replaceWhitespaceRuns (ex_trim (map ex_toLowerCase_char ''  New   York '')) = ''new york''"
  by code_simp+

lemma normalizeLocation_London: "normalizeLocation ex_env ''London'' = ''london''"
  by (simp only: normalizeLocation_def ex_env_simps ex_lower_cased)

lemma normalizeLocation_Paris: "normalizeLocation ex_env ''Paris'' = ''paris''"
  by (simp only: normalizeLocation_def ex_env_simps ex_lower_cased)

lemma ex_create_valid:
  "validateDateRange ex_parseISO ex_now \<lparr>startDate = ''2025-11-04'', endDate = ''2025-11-07''\<rparr> =
     \<lparr>isValid = True, errors = [],
      adjustedRange = Some \<lparr>startDate = ''2025-11-04'', endDate = ''2025-11-07''\<rparr>\<rparr>"
  by (rule validateDateRange_within_horizon[of _ _ 1762214400000 1762473600000])
    (simp_all add: ex_parseISO_def ex_now_def msPerDay_def)

lemma ex_shorter_valid:
  "validateDateRange ex_parseISO ex_now \<lparr>startDate = ''2025-11-06'', endDate = ''2025-11-07''\<rparr> =
     \<lparr>isValid = True, errors = [],
      adjustedRange = Some \<lparr>startDate = ''2025-11-06'', endDate = ''2025-11-07''\<rparr>\<rparr>"
  by (rule validateDateRange_within_horizon[of _ _ 1762387200000 1762473600000])
    (simp_all add: ex_parseISO_def ex_now_def msPerDay_def)

lemma ex_backwards_refused:
  "validateDateRange ex_parseISO ex_now ex_backwards =
     \<lparr>isValid = False, errors = [''Start date cannot be after end date''],
      adjustedRange = Some \<lparr>startDate = ''2025-11-03'', endDate = ''2025-11-08''\<rparr>\<rparr>"
  by code_simp

lemma ex_validateLocation_London:
  "validateLocation WeatherService_constructor ex_env ''London'' =
     [\<lparr>lm_name = ''London'', lm_country = ''GB'', lm_state = None,
       lm_coordinates = \<lparr>lat = 0, lon = 0\<rparr>, confidence = 1\<rparr>]"
  by (simp add: validateLocation_def getCurrentWeather_def ex_env_simps ex_London_def)

lemma ex_validateLocation_Paris:
  "validateLocation WeatherService_constructor ex_env ''Paris'' =
     [\<lparr>lm_name = ''Paris'', lm_country = ''FR'', lm_state = None,
       lm_coordinates = \<lparr>lat = 0, lon = 0\<rparr>, confidence = 1\<rparr>]"
  by (simp add: validateLocation_def getCurrentWeather_def ex_env_simps ex_Paris_def)

lemma ex_create_run:
  "createWeatherQuery WeatherService_constructor ex_env ex_db ex_request =
     (Inr ex_created,
      \<lparr>weather_queries = [ex_q1, ex_created], ai_insights = [ex_insight1],
       writes = [InsertQuery ''690800000000000000000002'']\<rparr>)"
  by (simp add: createWeatherQuery_def Let_def ex_env_simps ex_request_def ex_create_valid
      validateLocation_def getCurrentWeather_def getForecast_def ex_London_def
      normalizeLocation_London insertOne_def findOne_def ex_db_def ex_q1_def ex_created_def)

lemma ex_update_location_run:
  "updateWeatherQuery WeatherService_constructor ex_env ex_db ''690800000000000000000001'' ex_to_Paris =
     (Inr None,
      \<lparr>weather_queries = [ex_q1_in_Paris], ai_insights = [ex_insight1],
       writes = [UpdateQuery ''690800000000000000000001'']\<rparr>)"
  by (simp add: updateWeatherQuery_def Let_def handle_location_update_def
      handle_dateRange_update_def ex_to_Paris_def ex_validateLocation_Paris
      getCurrentWeather_def getForecast_def ex_env_simps normalizeLocation_Paris
      findOneAndUpdate_def findOne_def apply_set_def value_of_def ex_db_def ex_q1_def
      ex_q1_in_Paris_def)

lemma ex_update_shorter_run:
  "updateWeatherQuery WeatherService_constructor ex_env ex_db ''690800000000000000000001'' ex_shorter =
     (Inr None, ex_db_shorter)"
  by (simp add: updateWeatherQuery_def Let_def handle_location_update_def
      handle_dateRange_update_def ex_shorter_def ex_shorter_valid ex_env_simps
      findOneAndUpdate_def findOne_def apply_set_def value_of_def ex_db_def ex_q1_def
      ex_q1_shorter_def ex_db_shorter_def)

lemma ex_shorter_stored:
  "findOne ex_db_shorter ''690800000000000000000001'' = Some ex_q1_shorter"
  by (simp add: findOne_def ex_db_shorter_def ex_q1_shorter_def ex_q1_def)

lemma ex_in_Paris_stored:
  "findOne \<lparr>weather_queries = [ex_q1_in_Paris], ai_insights = [ex_insight1],
            writes = [UpdateQuery ''690800000000000000000001'']\<rparr>
     ''690800000000000000000001'' = Some ex_q1_in_Paris"
  by (simp add: findOne_def ex_q1_in_Paris_def ex_q1_def)

lemma ex_to_Paris_location: "upd_location ex_to_Paris = Some ''Paris''"
  by (simp add: ex_to_Paris_def)

lemma ex_stores_ordered:
  "store_ordered ex_parseISO ex_db"
  "store_ordered ex_parseISO ex_db_created"
  "store_ordered ex_parseISO ex_db_shorter"
  by (simp_all add: store_ordered_def range_ordered_def ex_db_def ex_db_created_def
      ex_db_shorter_def ex_q1_def ex_created_def ex_q1_shorter_def ex_parseISO_def)

lemma ex_env_flaky_simps:
  "dateParser ex_env_flaky = ex_parseISO"
  "clock ex_env_flaky = ex_now"
  "currentWeatherResponse ex_env_flaky n =
     (if n = 0 then map_of [(''London'', ex_London)] else Map.empty)"
  by (simp_all add: ex_env_flaky_def ex_env_def)

lemma ex_validateLocation_flaky:
  "validateLocation WeatherService_constructor ex_env_flaky ''London'' =
     [\<lparr>lm_name = ''London'', lm_country = ''GB'', lm_state = None,
       lm_coordinates = \<lparr>lat = 0, lon = 0\<rparr>, confidence = 1\<rparr>]"
  by (simp add: validateLocation_def getCurrentWeather_def ex_env_flaky_simps ex_London_def)

lemma ex_create_Paris_run:
  "createWeatherQuery WeatherService_constructor ex_env ex_db ex_request_Paris =
     (Inr ex_created_Paris,
      \<lparr>weather_queries = [ex_q1, ex_created_Paris], ai_insights = [ex_insight1],
       writes = [InsertQuery ''690800000000000000000002'']\<rparr>)"
  by (simp add: createWeatherQuery_def Let_def ex_env_simps ex_request_Paris_def ex_create_valid
      ex_validateLocation_Paris getCurrentWeather_def getForecast_def
      normalizeLocation_Paris insertOne_def findOne_def ex_db_def ex_q1_def ex_created_Paris_def)

lemma ex_delete_run:
  "deleteWeatherQuery ex_env ex_db ''690800000000000000000001'' = (Inr True, ex_db_deleted)"
  by (simp add: deleteWeatherQuery_def Let_def deleteOne_def deleteMany_insights_def findOne_def
      ex_env_simps ex_db_def ex_q1_def ex_insight1_def ex_db_deleted_def)



lemma ex_escaped:
  "xml_element ''userNotes'' (or_empty (userNotes ex_q1_markup)) =
     ''<userNotes>5 &lt; 6 &amp; &quot;rain&quot;</userNotes>''"
  "xml_element ''insight'' (insight ex_insight1) =
     ''<insight>Rain &lt;likely&gt; &amp; wind</insight>''"
  by (simp_all add: xml_element_def xml_escaped_def xml_entity_def or_empty_def
      ex_q1_markup_def ex_insight1_def dquote_def)

subsection \<open>The date range of a stored query\<close>

text \<open>
  \<^bold>\<open>C2\<close>. Create and update keep every stored date range ordered (both dates parse, start
  \<open>\<le>\<close> end): a database whose ranges are ordered stays so under either operation; the
  document a create writes and the document an update with a date range leaves under the
  key carry an ordered range (the range of the request); and a range the validator refuses
  ends the operation with an error and the database as it was.
\<close>

theorem dateRange_ordered_at_rest:
  assumes "store_ordered (dateParser E) db"
  shows "store_ordered (dateParser E) (snd (createWeatherQuery this E db request)) \<and>
         store_ordered (dateParser E) (snd (updateWeatherQuery this E db qid updates)) \<and>
         (createWeatherQuery this E db request = (Inr q, db1) \<longrightarrow>
            range_ordered (dateParser E) (dateRange q) \<and>
            weather_queries db1 = weather_queries db @ [q]) \<and>
         (updateWeatherQuery this E db qid updates = (Inr x, db2) \<and>
          upd_dateRange updates = Some r \<longrightarrow>
            (\<exists>k q'. objectId E qid = Inr k \<and> findOne db2 k = Some q' \<and> dateRange q' = r \<and>
                    q' \<in> set (weather_queries db2)) \<and>
            range_ordered (dateParser E) r) \<and>
         (\<not> isValid (validateDateRange (dateParser E) (clock E) (req_dateRange refused)) \<longrightarrow>
            (\<exists>e. createWeatherQuery this E db refused = (Inl e, db))) \<and>
         (upd_dateRange refused' = Some r' \<and>
          \<not> isValid (validateDateRange (dateParser E) (clock E) r') \<longrightarrow>
            (\<exists>e. updateWeatherQuery this E db qid refused' = (Inl e, db)))"
proof (intro conjI impI)
  show "store_ordered (dateParser E) (snd (createWeatherQuery this E db request))"
    using assms by (rule createWeatherQuery_preserves)
  show "store_ordered (dateParser E) (snd (updateWeatherQuery this E db qid updates))"
    using assms by (rule updateWeatherQuery_preserves)
next
  assume run: "createWeatherQuery this E db request = (Inr q, db1)"
  from createWeatherQuery_Inr[OF run] have
    v: "isValid (validateDateRange (dateParser E) (clock E) (req_dateRange request))"
    and dr: "dateRange q = req_dateRange request"
    and d: "weather_queries db1 = weather_queries db @ [q]"
    by auto
  from range_ordered_valid[OF v] dr show "range_ordered (dateParser E) (dateRange q)"
    by simp
  from d show "weather_queries db1 = weather_queries db @ [q]" .
next
  assume a: "updateWeatherQuery this E db qid updates = (Inr x, db2) \<and>
    upd_dateRange updates = Some r"
  then have run: "updateWeatherQuery this E db qid updates = (Inr x, db2)"
    by simp
  from updateWeatherQuery_dateRange[OF run] a obtain k q0 q' where
    k: "objectId E qid = Inr k"
    and f: "findOne db k = Some q0"
    and d: "weather_queries db2 = replace_first (\<lambda>d. oid d = k) q' (weather_queries db)"
    and o: "oid q' = oid q0"
    and c: "dateRange q' = r" "isValid (validateDateRange (dateParser E) (clock E) r)"
    by auto
  from f have "oid q0 = k"
    using find_Some_holds[of "\<lambda>d. oid d = k" "weather_queries db" q0] by (simp add: findOne_def)
  with o f d have f2: "findOne db2 k = Some q'"
    by (simp add: findOne_def find_replace_first)
  then have "q' \<in> set (weather_queries db2)"
    by (simp add: findOne_def find_Some_mem)
  with k f2 c show "\<exists>k q'. objectId E qid = Inr k \<and> findOne db2 k = Some q' \<and> dateRange q' = r \<and>
      q' \<in> set (weather_queries db2)"
    by blast
  from c show "range_ordered (dateParser E) r"
    by (simp add: range_ordered_valid)
next
  assume "\<not> isValid (validateDateRange (dateParser E) (clock E) (req_dateRange refused))"
  then show "\<exists>e. createWeatherQuery this E db refused = (Inl e, db)"
    by (simp add: createWeatherQuery_invalid_range)
next
  assume "upd_dateRange refused' = Some r' \<and>
    \<not> isValid (validateDateRange (dateParser E) (clock E) r')"
  then show "\<exists>e. updateWeatherQuery this E db qid refused' = (Inl e, db)"
    by (simp add: updateWeatherQuery_invalid_range)
qed

theorem dateRange_ordered_at_rest_witness:
  "store_ordered ex_parseISO ex_db \<and>
   createWeatherQuery WeatherService_constructor ex_env ex_db ex_request =
     (Inr ex_created, ex_db_created) \<and>
   range_ordered ex_parseISO (dateRange ex_created) \<and>
   store_ordered ex_parseISO ex_db_created \<and>
   updateWeatherQuery WeatherService_constructor ex_env ex_db ''690800000000000000000001'' ex_shorter =
     (Inr None, ex_db_shorter) \<and>
   findOne ex_db_shorter ''690800000000000000000001'' = Some ex_q1_shorter \<and>
   dateRange ex_q1_shorter = \<lparr>startDate = ''2025-11-06'', endDate = ''2025-11-07''\<rparr> \<and>
   store_ordered ex_parseISO ex_db_shorter \<and>
   \<not> isValid (validateDateRange ex_parseISO ex_now ex_backwards) \<and>
   isl (fst (createWeatherQuery WeatherService_constructor ex_env ex_db ex_request_backwards)) \<and>
   snd (createWeatherQuery WeatherService_constructor ex_env ex_db ex_request_backwards) = ex_db \<and>
   isl (fst (updateWeatherQuery WeatherService_constructor ex_env ex_db
               ''690800000000000000000001'' ex_update_backwards)) \<and>
   snd (updateWeatherQuery WeatherService_constructor ex_env ex_db
          ''690800000000000000000001'' ex_update_backwards) = ex_db"
proof -
  have c: "createWeatherQuery WeatherService_constructor ex_env ex_db ex_request =
      (Inr ex_created, ex_db_created)"
    by (simp add: ex_create_run ex_db_created_def)
  have s: "upd_dateRange ex_shorter = Some \<lparr>startDate = ''2025-11-06'', endDate = ''2025-11-07''\<rparr>"
    by (simp add: ex_shorter_def)
  have b: "\<not> isValid (validateDateRange (dateParser ex_env) (clock ex_env)
             (req_dateRange ex_request_backwards))"
    "upd_dateRange ex_update_backwards = Some ex_backwards"
    "\<not> isValid (validateDateRange (dateParser ex_env) (clock ex_env) ex_backwards)"
    by (simp_all add: ex_env_simps ex_request_backwards_def ex_update_backwards_def
        ex_backwards_refused)
  have o: "store_ordered (dateParser ex_env) ex_db"
    by (simp add: ex_env_simps ex_stores_ordered)
  from dateRange_ordered_at_rest[OF o, of WeatherService_constructor ex_request
      "''690800000000000000000001''" ex_shorter ex_created ex_db_created None
      ex_db_shorter "\<lparr>startDate = ''2025-11-06'', endDate = ''2025-11-07''\<rparr>"
      ex_request_backwards ex_update_backwards ex_backwards]
    c s b ex_update_shorter_run
  show ?thesis
    by (auto simp: ex_env_simps ex_backwards_refused ex_stores_ordered(1) ex_shorter_stored)
qed

subsection \<open>Location matching\<close>

text \<open>
  \<^bold>\<open>C3\<close>. The fuzzy fallback of the service as it is constructed: the index is built on
  the empty collection, so when the authoritative lookup fails \<^verbatim>\<open>validateLocation\<close>
  returns no candidate at all, whatever the string and however fuse.js scores.
\<close>

theorem validateLocation_fallback_finds_nothing:
  "getCurrentWeather E 0 loc = Inl e \<Longrightarrow> validateLocation WeatherService_constructor E loc = []"
  by (simp add: validateLocation_def WeatherService_constructor_def Fuse_search_empty)

theorem validateLocation_fallback_finds_nothing_witness:
  "getCurrentWeather ex_env 0 ''Londn'' = Inl (Error ''Failed to fetch current weather data'') \<and>
   fuseScore ex_env ''Londn'' ex_gazetteer_London = Some 0.1 \<and>
   validateLocation WeatherService_constructor ex_env ''Londn'' = []"
  using validateLocation_fallback_finds_nothing[of ex_env "''Londn''"
      "Error ''Failed to fetch current weather data''"]
  by (simp add: getCurrentWeather_def ex_env_def ex_gazetteer_London_def)

text \<open>
  The same search over an index that holds an entry for London finds it, with the
  confidence 1 minus the distance and the coordinates (0, 0).
\<close>

lemma ex_validateLocation_with_gazetteer:
  "validateLocation \<lparr>fuse = \<lparr>fuse_collection = [ex_gazetteer_London], fuse_threshold = 0.3\<rparr>\<rparr>
     ex_env ''Londn'' =
   [\<lparr>lm_name = ''London'', lm_country = ''GB'', lm_state = None,
     lm_coordinates = \<lparr>lat = 0, lon = 0\<rparr>, confidence = 0.9\<rparr>]"
  by (simp add: validateLocation_def getCurrentWeather_def ex_env_simps ex_env_def
      ex_gazetteer_London_def Fuse_search_def)

subsection \<open>Create: the two fetches\<close>

text \<open>
  \<^bold>\<open>C4\<close>. In a create whose date range is valid and whose location resolved: when the
  weather fetch fails, the operation fails with an error and the database is as it was;
  when the weather fetch succeeds and the forecast fetch fails (and the new key is
  free), the query is created and stored, with the fetched weather and no forecast. A
  failure of the lookup inside \<^verbatim>\<open>validateLocation\<close> fails the create of the service as
  constructed as well, with the database as it was.
\<close>

theorem createWeatherQuery_fetch_failures:
  "(isValid (validateDateRange (dateParser E) (clock E) (req_dateRange request)) \<and>
    validateLocation this E (req_location request) = bestMatch # rest \<and>
    getCurrentWeather E 1
      (if confidence bestMatch > 0.8 then lm_name bestMatch else req_location request) = Inl e
    \<longrightarrow>
      createWeatherQuery this E db request =
        (Inl (Error (''Failed to fetch weather data: '' @ message e)), db)) \<and>
   (isValid (validateDateRange (dateParser E') (clock E') (req_dateRange request')) \<and>
    validateLocation this' E' (req_location request') = bestMatch' # rest' \<and>
    getCurrentWeather E' 1
      (if confidence bestMatch' > 0.8 then lm_name bestMatch' else req_location request') = Inr w \<and>
    getForecast E' 0
      (if confidence bestMatch' > 0.8 then lm_name bestMatch' else req_location request') = Inl e' \<and>
    findOne db' (insertedId E') = None
    \<longrightarrow>
      (\<exists>q. createWeatherQuery this' E' db' request' =
              (Inr q, db'\<lparr>weather_queries := weather_queries db' @ [q],
                         writes := writes db' @ [InsertQuery (insertedId E')]\<rparr>) \<and>
           forecastData q = None \<and> weatherData q = w \<and>
           location q = req_location request')) \<and>
   (getCurrentWeather E'' 0 (req_location request'') = Inl e'' \<longrightarrow>
      (\<exists>err. createWeatherQuery WeatherService_constructor E'' db'' request'' = (Inl err, db'')))"
proof (intro conjI impI)
  assume "isValid (validateDateRange (dateParser E) (clock E) (req_dateRange request)) \<and>
    validateLocation this E (req_location request) = bestMatch # rest \<and>
    getCurrentWeather E 1
      (if confidence bestMatch > 0.8 then lm_name bestMatch else req_location request) = Inl e"
  then show "createWeatherQuery this E db request =
        (Inl (Error (''Failed to fetch weather data: '' @ message e)), db)"
    by (simp add: createWeatherQuery_def Let_def)
next
  assume a: "isValid (validateDateRange (dateParser E') (clock E') (req_dateRange request')) \<and>
    validateLocation this' E' (req_location request') = bestMatch' # rest' \<and>
    getCurrentWeather E' 1
      (if confidence bestMatch' > 0.8 then lm_name bestMatch' else req_location request') = Inr w \<and>
    getForecast E' 0
      (if confidence bestMatch' > 0.8 then lm_name bestMatch' else req_location request') = Inl e' \<and>
    findOne db' (insertedId E') = None"
  then show "\<exists>q. createWeatherQuery this' E' db' request' =
              (Inr q, db'\<lparr>weather_queries := weather_queries db' @ [q],
                         writes := writes db' @ [InsertQuery (insertedId E')]\<rparr>) \<and>
           forecastData q = None \<and> weatherData q = w \<and>
           location q = req_location request'"
    by (simp add: createWeatherQuery_def Let_def insertOne_def findOne_def find_snoc)
next
  assume "getCurrentWeather E'' 0 (req_location request'') = Inl e''"
  then have "validateLocation WeatherService_constructor E'' (req_location request'') = []"
    by (simp add: validateLocation_def WeatherService_constructor_def Fuse_search_empty)
  then show "\<exists>err. createWeatherQuery WeatherService_constructor E'' db'' request'' = (Inl err, db'')"
    by (simp add: createWeatherQuery_def Let_def)
qed

theorem createWeatherQuery_fetch_failures_witness:
  "createWeatherQuery WeatherService_constructor ex_env_flaky ex_db ex_request =
     (Inl (Error ''Failed to fetch weather data: Failed to fetch current weather data''), ex_db) \<and>
   getForecast ex_env 0 ''Paris'' = Inl (Error ''Failed to fetch forecast data'') \<and>
   createWeatherQuery WeatherService_constructor ex_env ex_db ex_request_Paris =
     (Inr ex_created_Paris,
      \<lparr>weather_queries = [ex_q1, ex_created_Paris], ai_insights = [ex_insight1],
       writes = [InsertQuery ''690800000000000000000002'']\<rparr>) \<and>
   forecastData ex_created_Paris = None \<and>
   weatherData ex_created_Paris = ex_Paris \<and>
   getCurrentWeather ex_env 0 ''Londn'' = Inl (Error ''Failed to fetch current weather data'') \<and>
   isl (fst (createWeatherQuery WeatherService_constructor ex_env ex_db ex_request_Londn)) \<and>
   snd (createWeatherQuery WeatherService_constructor ex_env ex_db ex_request_Londn) = ex_db"
proof -
  have v: "isValid (validateDateRange (dateParser ex_env_flaky) (clock ex_env_flaky)
             (req_dateRange ex_request))"
    "isValid (validateDateRange (dateParser ex_env) (clock ex_env) (req_dateRange ex_request_Paris))"
    by (simp_all add: ex_env_flaky_simps ex_env_simps ex_request_def ex_request_Paris_def
        ex_create_valid)
  have l: "validateLocation WeatherService_constructor ex_env_flaky (req_location ex_request) =
      \<lparr>lm_name = ''London'', lm_country = ''GB'', lm_state = None,
       lm_coordinates = \<lparr>lat = 0, lon = 0\<rparr>, confidence = 1\<rparr> # []"
    "validateLocation WeatherService_constructor ex_env (req_location ex_request_Paris) =
      \<lparr>lm_name = ''Paris'', lm_country = ''FR'', lm_state = None,
       lm_coordinates = \<lparr>lat = 0, lon = 0\<rparr>, confidence = 1\<rparr> # []"
    by (simp_all add: ex_request_def ex_request_Paris_def ex_validateLocation_flaky
        ex_validateLocation_Paris)
  have f: "getCurrentWeather ex_env_flaky 1 ''London'' =
      Inl (Error ''Failed to fetch current weather data'')"
    "getCurrentWeather ex_env 1 ''Paris'' = Inr ex_Paris"
    "getForecast ex_env 0 ''Paris'' = Inl (Error ''Failed to fetch forecast data'')"
    "getCurrentWeather ex_env 0 ''Londn'' = Inl (Error ''Failed to fetch current weather data'')"
    "findOne ex_db (insertedId ex_env) = None"
    by (simp_all add: getCurrentWeather_def getForecast_def ex_env_flaky_simps ex_env_simps
        findOne_def ex_db_def ex_q1_def)
  have r: "req_location ex_request_Londn = ''Londn''"
    by (simp add: ex_request_Londn_def)
  note t = createWeatherQuery_fetch_failures[of ex_env_flaky ex_request WeatherService_constructor
      "\<lparr>lm_name = ''London'', lm_country = ''GB'', lm_state = None,
        lm_coordinates = \<lparr>lat = 0, lon = 0\<rparr>, confidence = 1\<rparr>" "[]"
      "Error ''Failed to fetch current weather data''" ex_db
      ex_env ex_request_Paris WeatherService_constructor
      "\<lparr>lm_name = ''Paris'', lm_country = ''FR'', lm_state = None,
        lm_coordinates = \<lparr>lat = 0, lon = 0\<rparr>, confidence = 1\<rparr>" "[]"
      ex_Paris "Error ''Failed to fetch forecast data''" ex_db
      ex_env ex_request_Londn "Error ''Failed to fetch current weather data''" ex_db]
  from t v l f have c1:
    "createWeatherQuery WeatherService_constructor ex_env_flaky ex_db ex_request =
       (Inl (Error ''Failed to fetch weather data: Failed to fetch current weather data''), ex_db)"
    by simp
  from t v l f obtain q where
    "fst (createWeatherQuery WeatherService_constructor ex_env ex_db ex_request_Paris) = Inr q"
    and q: "forecastData q = None" "weatherData q = ex_Paris"
    by auto
  then have "q = ex_created_Paris"
    by (simp add: ex_create_Paris_run)
  with q have c2: "forecastData ex_created_Paris = None" "weatherData ex_created_Paris = ex_Paris"
    by simp_all
  from t f r obtain err where
    c3: "createWeatherQuery WeatherService_constructor ex_env ex_db ex_request_Londn = (Inl err, ex_db)"
    by auto
  from c1 c2 c3 f show ?thesis
    by (simp add: ex_create_Paris_run)
qed

subsection \<open>Delete\<close>

text \<open>
  \<^bold>\<open>C5\<close>. Deleting a query that exists (in a collection whose keys are distinct) answers
  true, removes the document, removes every insight whose \<^verbatim>\<open>queryId\<close> is the given id,
  and issues the deletion of the insights before the deletion of the query. Deleting
  again answers false and changes neither collection, and so does deleting any id for
  which no query is found. No call of delete ends in an error.
\<close>

theorem deleteWeatherQuery_cascades_and_repeats:
  assumes "distinct (map oid (weather_queries db))"
    and "objectId E qid = Inr k"
    and "findOne db k = Some q"
    and "after = snd (deleteWeatherQuery E db qid)"
  shows "fst (deleteWeatherQuery E db qid) = Inr True \<and>
         weather_queries after = filter (\<lambda>d. oid d \<noteq> k) (weather_queries db) \<and>
         getWeatherQuery E after qid = None \<and>
         ai_insights after = filter (\<lambda>i. queryId i \<noteq> qid) (ai_insights db) \<and>
         list_all (\<lambda>i. queryId i \<noteq> qid) (ai_insights after) \<and>
         writes after = writes db @ [DeleteInsightsOf qid, DeleteQuery k] \<and>
         fst (deleteWeatherQuery E after qid) = Inr False \<and>
         weather_queries (snd (deleteWeatherQuery E after qid)) = weather_queries after \<and>
         ai_insights (snd (deleteWeatherQuery E after qid)) = ai_insights after \<and>
         (getWeatherQuery E db' qid' = None \<longrightarrow>
            fst (deleteWeatherQuery E db' qid') = Inr False \<and>
            weather_queries (snd (deleteWeatherQuery E db' qid')) = weather_queries db') \<and>
         \<not> isl (fst (deleteWeatherQuery E db' qid'))"
proof -
  from deleteWeatherQuery_existing[OF assms(1-3)] assms(4) have
    r: "fst (deleteWeatherQuery E db qid) = Inr True"
    and a: "after =
      \<lparr>weather_queries = filter (\<lambda>d. oid d \<noteq> k) (weather_queries db),
       ai_insights = filter (\<lambda>i. queryId i \<noteq> qid) (ai_insights db),
       writes = writes db @ [DeleteInsightsOf qid, DeleteQuery k]\<rparr>"
    by simp_all
  from a assms(2) have g: "getWeatherQuery E after qid = None"
    by (simp add: getWeatherQuery_def findOne_def find_filter_neq)
  from a have i: "list_all (\<lambda>i. queryId i \<noteq> qid) (ai_insights after)"
    by (simp add: list_all_iff)
  then have i': "filter (\<lambda>i. queryId i \<noteq> qid) (ai_insights after) = ai_insights after"
    by (simp add: list_all_iff filter_id_conv)
  have n: "\<not> isl (fst (deleteWeatherQuery E db' qid'))"
    by (simp add: deleteWeatherQuery_def Let_def deleteOne_def split: sum.splits)
  from r a g i i' n deleteWeatherQuery_absent[OF g] deleteWeatherQuery_absent[of E db' qid']
  show ?thesis
    by simp
qed

theorem deleteWeatherQuery_cascades_and_repeats_witness:
  "findOne ex_db ''690800000000000000000001'' = Some ex_q1 \<and>
   queryId ex_insight1 = ''690800000000000000000001'' \<and>
   deleteWeatherQuery ex_env ex_db ''690800000000000000000001'' = (Inr True, ex_db_deleted) \<and>
   weather_queries ex_db_deleted = [] \<and>
   ai_insights ex_db_deleted = [] \<and>
   writes ex_db_deleted =
     [DeleteInsightsOf ''690800000000000000000001'', DeleteQuery ''690800000000000000000001''] \<and>
   fst (deleteWeatherQuery ex_env ex_db_deleted ''690800000000000000000001'') = Inr False \<and>
   getWeatherQuery ex_env ex_db ''690800000000000000000009'' = None \<and>
   fst (deleteWeatherQuery ex_env ex_db ''690800000000000000000009'') = Inr False \<and>
   weather_queries (snd (deleteWeatherQuery ex_env ex_db ''690800000000000000000009'')) = [ex_q1]"
proof -
  have d: "distinct (map oid (weather_queries ex_db))"
    by (simp add: ex_db_def)
  have k: "objectId ex_env ''690800000000000000000001'' = Inr ''690800000000000000000001''"
    by (simp add: ex_env_simps)
  have f: "findOne ex_db ''690800000000000000000001'' = Some ex_q1"
    by (simp add: findOne_def ex_db_def ex_q1_def)
  have a: "ex_db_deleted = snd (deleteWeatherQuery ex_env ex_db ''690800000000000000000001'')"
    by (simp add: ex_delete_run)
  have g: "getWeatherQuery ex_env ex_db ''690800000000000000000009'' = None"
    by (simp add: getWeatherQuery_def findOne_def ex_env_simps ex_db_def ex_q1_def)
  have w: "weather_queries ex_db = [ex_q1]" "queryId ex_insight1 = ''690800000000000000000001''"
    by (simp_all add: ex_db_def ex_insight1_def)
  note t = deleteWeatherQuery_cascades_and_repeats[OF d k f a,
      of ex_db "''690800000000000000000009''"]
  from t have again:
    "fst (deleteWeatherQuery ex_env ex_db_deleted ''690800000000000000000001'') = Inr False"
    by simp
  from t g have absent:
    "fst (deleteWeatherQuery ex_env ex_db ''690800000000000000000009'') = Inr False"
    "weather_queries (snd (deleteWeatherQuery ex_env ex_db ''690800000000000000000009'')) =
       weather_queries ex_db"
    by simp_all
  from again absent f g w show ?thesis
    by (simp add: ex_delete_run ex_db_deleted_def)
qed

subsection \<open>Update\<close>

text \<open>
  \<^bold>\<open>C6\<close>. For a query that exists, an update that supplies only \<^verbatim>\<open>userNotes\<close> leaves
  under its key the query with \<^verbatim>\<open>userNotes\<close> replaced and \<^verbatim>\<open>updatedAt\<close> set to the clock,
  in the place of the old one; location, normalised location, coordinates, date range,
  weather data, forecast data, tags, creation time and key are as before, and so are the
  insights.
\<close>

theorem updateWeatherQuery_notes_only:
  assumes "objectId E qid = Inr k"
    and "findOne db k = Some q"
    and "updates = \<lparr>upd_location = None, upd_dateRange = None,
                    upd_userNotes = Some notes, upd_tags = None\<rparr>"
    and "q' = q\<lparr>userNotes := Some notes, updatedAt := clock E\<rparr>"
  shows "getWeatherQuery E (snd (updateWeatherQuery this E db qid updates)) qid = Some q' \<and>
         weather_queries (snd (updateWeatherQuery this E db qid updates)) =
           replace_first (\<lambda>d. oid d = k) q' (weather_queries db) \<and>
         ai_insights (snd (updateWeatherQuery this E db qid updates)) = ai_insights db \<and>
         location q' = location q \<and>
         locationNormalized q' = locationNormalized q \<and>
         coordinates q' = coordinates q \<and>
         dateRange q' = dateRange q \<and>
         weatherData q' = weatherData q \<and>
         forecastData q' = forecastData q \<and>
         tags q' = tags q \<and>
         createdAt q' = createdAt q \<and>
         oid q' = oid q \<and>
         userNotes q' = Some notes \<and>
         updatedAt q' = clock E"
proof -
  let ?u = "\<lparr>set_updatedAt = clock E, set_location = None, set_locationNormalized = None,
             set_coordinates = None, set_weatherData = None, set_forecastData = None,
             set_dateRange = None, set_userNotes = Some notes, set_tags = None\<rparr>"
  have ap: "apply_set ?u q = q'"
    using assms(4) by (simp add: apply_set_def)
  from assms(2) have kq: "oid q = k"
    using find_Some_holds[of "\<lambda>d. oid d = k" "weather_queries db" q] by (simp add: findOne_def)
  have run: "snd (updateWeatherQuery this E db qid updates) =
      db\<lparr>weather_queries := replace_first (\<lambda>d. oid d = k) q' (weather_queries db),
         writes := writes db @ [UpdateQuery k]\<rparr>"
    using assms(1-3) ap
    by (simp add: updateWeatherQuery_def Let_def handle_location_update_def
        handle_dateRange_update_def findOneAndUpdate_def)
  have "oid q' = k"
    using kq assms(4) by simp
  with assms(1,2) run have "getWeatherQuery E (snd (updateWeatherQuery this E db qid updates)) qid = Some q'"
    by (simp add: getWeatherQuery_def findOne_def find_replace_first)
  with run assms(4) show ?thesis
    by simp
qed

theorem updateWeatherQuery_notes_only_witness:
  "getWeatherQuery ex_env ex_db ''690800000000000000000001'' = Some ex_q1 \<and>
   getWeatherQuery ex_env
     (snd (updateWeatherQuery WeatherService_constructor ex_env ex_db
             ''690800000000000000000001'' ex_notes_only))
     ''690800000000000000000001'' = Some ex_q1_noted \<and>
   weather_queries
     (snd (updateWeatherQuery WeatherService_constructor ex_env ex_db
             ''690800000000000000000001'' ex_notes_only)) = [ex_q1_noted] \<and>
   location ex_q1_noted = ''London'' \<and>
   weatherData ex_q1_noted = ex_London \<and>
   forecastData ex_q1_noted = Some ex_London_forecast \<and>
   tags ex_q1_noted = Some [''trip''] \<and>
   userNotes ex_q1 = Some ''first'' \<and>
   userNotes ex_q1_noted = Some ''bring an umbrella'' \<and>
   updatedAt ex_q1 = 1762000000000 \<and>
   updatedAt ex_q1_noted = ex_now"
proof -
  have k: "objectId ex_env ''690800000000000000000001'' = Inr ''690800000000000000000001''"
    by (simp add: ex_env_simps)
  have f: "findOne ex_db ''690800000000000000000001'' = Some ex_q1"
    by (simp add: findOne_def ex_db_def ex_q1_def)
  have g: "getWeatherQuery ex_env ex_db ''690800000000000000000001'' = Some ex_q1"
    using k f by (simp add: getWeatherQuery_def)
  have n: "ex_q1_noted = ex_q1\<lparr>userNotes := Some ''bring an umbrella'', updatedAt := clock ex_env\<rparr>"
    by (simp add: ex_q1_noted_def ex_env_simps)
  have v: "location ex_q1 = ''London''" "weatherData ex_q1 = ex_London"
    "forecastData ex_q1 = Some ex_London_forecast" "tags ex_q1 = Some [''trip'']"
    "userNotes ex_q1 = Some ''first''" "updatedAt ex_q1 = 1762000000000"
    by (simp_all add: ex_q1_def)
  have r: "replace_first (\<lambda>d. oid d = ''690800000000000000000001'') ex_q1_noted
             (weather_queries ex_db) = [ex_q1_noted]"
    by (simp add: ex_db_def ex_q1_def)
  from updateWeatherQuery_notes_only[OF k f ex_notes_only_def n, of WeatherService_constructor]
    g v r
  show ?thesis
    by (simp add: ex_env_simps)
qed

text \<open>
  \<^bold>\<open>C7\<close>. What an update with a location does when the forecast fetch fails: for a query
  that exists, with the location resolved and the weather fetched, the query is left
  under its key with the new location and the new weather data, and with the forecast
  data it had before the update.
\<close>

theorem updateWeatherQuery_failed_forecast_keeps_old:
  assumes "objectId E qid = Inr k"
    and "findOne db k = Some q"
    and "upd_location updates = Some loc"
    and "loc \<noteq> []"
    and "upd_dateRange updates = None"
    and "validateLocation this E loc = bestMatch # rest"
    and "finalLocation = (if confidence bestMatch > 0.8 then lm_name bestMatch else loc)"
    and "getCurrentWeather E 1 finalLocation = Inr w"
    and "getForecast E 0 finalLocation = Inl e"
  shows "\<exists>q'. findOne (snd (updateWeatherQuery this E db qid updates)) k = Some q' \<and>
              weather_queries (snd (updateWeatherQuery this E db qid updates)) =
                replace_first (\<lambda>d. oid d = k) q' (weather_queries db) \<and>
              location q' = loc \<and>
              weatherData q' = w \<and>
              forecastData q' = forecastData q"
proof -
  let ?u0 = "\<lparr>set_updatedAt = clock E, set_location = None, set_locationNormalized = None,
              set_coordinates = None, set_weatherData = None, set_forecastData = None,
              set_dateRange = None, set_userNotes = None, set_tags = None\<rparr>"
  let ?u1 = "?u0\<lparr>set_location := Some loc,
                 set_locationNormalized := Some (normalizeLocation E finalLocation),
                 set_coordinates := Some (lm_coordinates bestMatch),
                 set_weatherData := Some w\<rparr>"
  let ?u3 = "?u1\<lparr>set_userNotes := upd_userNotes updates, set_tags := upd_tags updates\<rparr>"
  have h: "handle_location_update this E updates ?u0 = Inr ?u1"
    using assms(3,4,6-9) by (simp add: handle_location_update_def Let_def)
  have d: "handle_dateRange_update E updates ?u1 = Inr ?u1"
    using assms(5) by (simp add: handle_dateRange_update_def)
  from assms(2) have kq: "oid q = k"
    using find_Some_holds[of "\<lambda>d. oid d = k" "weather_queries db" q] by (simp add: findOne_def)
  have run: "snd (updateWeatherQuery this E db qid updates) =
      db\<lparr>weather_queries := replace_first (\<lambda>d. oid d = k) (apply_set ?u3 q) (weather_queries db),
         writes := writes db @ [UpdateQuery k]\<rparr>"
    using assms(1,2) h d by (simp add: updateWeatherQuery_def Let_def findOneAndUpdate_def)
  have o: "oid (apply_set ?u3 q) = k"
    using kq by (simp add: apply_set_def)
  have "findOne (snd (updateWeatherQuery this E db qid updates)) k = Some (apply_set ?u3 q)"
    using run assms(2) o by (simp add: findOne_def find_replace_first)
  moreover have "location (apply_set ?u3 q) = loc" "weatherData (apply_set ?u3 q) = w"
    "forecastData (apply_set ?u3 q) = forecastData q"
    by (simp_all add: apply_set_def)
  ultimately show ?thesis
    using run by simp
qed

theorem updateWeatherQuery_failed_forecast_keeps_old_witness:
  "forecastData ex_q1 = Some ex_London_forecast \<and>
   city_name ex_London_forecast = ''London'' \<and>
   getForecast ex_env 0 ''Paris'' = Inl (Error ''Failed to fetch forecast data'') \<and>
   findOne
     (snd (updateWeatherQuery WeatherService_constructor ex_env ex_db
             ''690800000000000000000001'' ex_to_Paris))
     ''690800000000000000000001'' = Some ex_q1_in_Paris \<and>
   location ex_q1_in_Paris = ''Paris'' \<and>
   weatherData ex_q1_in_Paris = ex_Paris \<and>
   forecastData ex_q1_in_Paris = Some ex_London_forecast"
proof -
  have k: "objectId ex_env ''690800000000000000000001'' = Inr ''690800000000000000000001''"
    by (simp add: ex_env_simps)
  have f: "findOne ex_db ''690800000000000000000001'' = Some ex_q1"
    by (simp add: findOne_def ex_db_def ex_q1_def)
  have u: "upd_location ex_to_Paris = Some ''Paris''" "upd_dateRange ex_to_Paris = None"
    by (simp_all add: ex_to_Paris_def)
  have c: "getCurrentWeather ex_env 1 ''Paris'' = Inr ex_Paris"
    "getForecast ex_env 0 ''Paris'' = Inl (Error ''Failed to fetch forecast data'')"
    by (simp_all add: getCurrentWeather_def getForecast_def ex_env_simps)
  have o: "forecastData ex_q1 = Some ex_London_forecast" "city_name ex_London_forecast = ''London''"
    by (simp_all add: ex_q1_def ex_London_forecast_def)
  from updateWeatherQuery_failed_forecast_keeps_old[where finalLocation = "''Paris''",
      OF k f u(1) _ u(2) ex_validateLocation_Paris _ c(1) c(2)]
  obtain q' where
    "findOne
       (snd (updateWeatherQuery WeatherService_constructor ex_env ex_db
               ''690800000000000000000001'' ex_to_Paris))
       ''690800000000000000000001'' = Some q'"
    and q: "location q' = ''Paris''" "weatherData q' = ex_Paris" "forecastData q' = forecastData ex_q1"
    by auto
  then have "q' = ex_q1_in_Paris"
    by (simp add: ex_update_location_run ex_in_Paris_stored)
  with q o c show ?thesis
    by (simp add: ex_update_location_run ex_in_Paris_stored)
qed

subsection \<open>List\<close>



subsection \<open>Export: escaping\<close>

text \<open>
  \<^bold>\<open>C9\<close>. \<^verbatim>\<open>escapeXML\<close> gives the empty string for a missing or empty text and otherwise
  replaces, character by character, each of the five special characters by its entity
  and nothing else, so that no \<open><\<close>, \<open>>\<close>, double or single quote is left in its result.
  In the output of \<^verbatim>\<open>generateSimpleXML\<close> every query of the list has its location,
  description, notes and tags, and every insight its location, insight, recommendations,
  weather summary, travel advice, clothing recommendations, activity suggestions and
  model, as an element whose content is the escaped text.
\<close>

theorem escapeXML_escapes_text:
  assumes "out = generateSimpleXML P now queries insights timestamp"
  shows "escapeXML None = [] \<and>
         escapeXML (Some []) = [] \<and>
         escapeXML (Some s) = xml_escaped s \<and>
         set (escapeXML (Some s)) \<inter> {CHR ''<'', CHR ''>'', CHR 0x22, CHR 0x27} = {} \<and>
         (\<forall>q \<in> set queries.
            sublist (xml_element ''location'' (location q)) out \<and>
            sublist (xml_element ''description'' (description (weatherData q))) out \<and>
            sublist (xml_element ''userNotes'' (or_empty (userNotes q))) out \<and>
            sublist (xml_element ''tags'' (join_or_empty '', '' (tags q))) out) \<and>
         (\<forall>i \<in> set insights.
            sublist (xml_element ''location'' (ai_location i)) out \<and>
            sublist (xml_element ''insight'' (insight i)) out \<and>
            sublist (xml_element ''recommendations''
                       (join_or_empty '' | '' (recommendations i))) out \<and>
            sublist (xml_element ''weatherSummary'' (weatherSummary i)) out \<and>
            sublist (xml_element ''travelAdvice'' (or_empty (travelAdvice i))) out \<and>
            sublist (xml_element ''clothingRecommendations''
                       (join_or_empty '' | '' (clothingRecommendations i))) out \<and>
            sublist (xml_element ''activitySuggestions''
                       (join_or_empty '' | '' (activitySuggestions i))) out \<and>
            sublist (xml_element ''model'' (model i)) out)"
proof (intro conjI ballI)
  show "escapeXML None = []" "escapeXML (Some []) = []"
    by (simp_all add: escapeXML_def)
  show "escapeXML (Some s) = xml_escaped s"
    by (rule escapeXML_Some)
  show "set (escapeXML (Some s)) \<inter> {CHR ''<'', CHR ''>'', CHR 0x22, CHR 0x27} = {}"
    by (simp only: escapeXML_Some xml_escaped_plain)
next
  fix q
  assume q: "q \<in> set queries"
  show "sublist (xml_element ''location'' (location q)) out"
    unfolding assms by (rule query_element_in_output[OF q query_lines_elements(1)])
  show "sublist (xml_element ''description'' (description (weatherData q))) out"
    unfolding assms by (rule query_element_in_output[OF q query_lines_elements(2)])
  show "sublist (xml_element ''userNotes'' (or_empty (userNotes q))) out"
    unfolding assms by (rule query_element_in_output[OF q query_lines_elements(3)])
  show "sublist (xml_element ''tags'' (join_or_empty '', '' (tags q))) out"
    unfolding assms by (rule query_element_in_output[OF q query_lines_elements(4)])
next
  fix i
  assume i: "i \<in> set insights"
  show "sublist (xml_element ''location'' (ai_location i)) out"
    unfolding assms by (rule insight_element_in_output[OF i insight_lines_elements(1)])
  show "sublist (xml_element ''insight'' (insight i)) out"
    unfolding assms by (rule insight_element_in_output[OF i insight_lines_elements(2)])
  show "sublist (xml_element ''recommendations'' (join_or_empty '' | '' (recommendations i))) out"
    unfolding assms by (rule insight_element_in_output[OF i insight_lines_elements(3)])
  show "sublist (xml_element ''weatherSummary'' (weatherSummary i)) out"
    unfolding assms by (rule insight_element_in_output[OF i insight_lines_elements(4)])
  show "sublist (xml_element ''travelAdvice'' (or_empty (travelAdvice i))) out"
    unfolding assms by (rule insight_element_in_output[OF i insight_lines_elements(5)])
  show "sublist (xml_element ''clothingRecommendations''
          (join_or_empty '' | '' (clothingRecommendations i))) out"
    unfolding assms by (rule insight_element_in_output[OF i insight_lines_elements(6)])
  show "sublist (xml_element ''activitySuggestions''
          (join_or_empty '' | '' (activitySuggestions i))) out"
    unfolding assms by (rule insight_element_in_output[OF i insight_lines_elements(7)])
  show "sublist (xml_element ''model'' (model i)) out"
    unfolding assms by (rule insight_element_in_output[OF i insight_lines_elements(8)])
qed

theorem escapeXML_escapes_text_witness:
  "escapeXML (Some ''&'') = ''&amp;'' \<and>
   escapeXML (Some ''<'') = ''&lt;'' \<and>
   escapeXML (Some ''>'') = ''&gt;'' \<and>
   escapeXML (Some [CHR 0x22]) = ''&quot;'' \<and>
   escapeXML (Some [CHR 0x27]) = ''&apos;'' \<and>
   escapeXML (Some ''a&b<c'') = ''a&amp;b&lt;c'' \<and>
   sublist ''<userNotes>5 &lt; 6 &amp; &quot;rain&quot;</userNotes>''
     (generateSimpleXML ex_printer ex_now [ex_q1_markup] [ex_insight1] ''2025-11-03_12-00-00'') \<and>
   sublist ''<insight>Rain &lt;likely&gt; &amp; wind</insight>''
     (generateSimpleXML ex_printer ex_now [ex_q1_markup] [ex_insight1] ''2025-11-03_12-00-00'')"
proof -
  note t = escapeXML_escapes_text[OF refl, where P = ex_printer and now = ex_now
      and queries = "[ex_q1_markup]" and insights = "[ex_insight1]"
      and timestamp = "''2025-11-03_12-00-00''"]
  have e: "escapeXML (Some ''&'') = ''&amp;''" "escapeXML (Some ''<'') = ''&lt;''"
    "escapeXML (Some ''>'') = ''&gt;''" "escapeXML (Some [CHR 0x22]) = ''&quot;''"
    "escapeXML (Some [CHR 0x27]) = ''&apos;''" "escapeXML (Some ''a&b<c'') = ''a&amp;b&lt;c''"
    using t[where s = "''&''"] t[where s = "''<''"] t[where s = "''>''"]
      t[where s = "[CHR 0x22]"] t[where s = "[CHR 0x27]"] t[where s = "''a&b<c''"]
    by (simp_all add: xml_escaped_def xml_entity_def)
  from t[where s = "[]"] have
    "sublist (xml_element ''userNotes'' (or_empty (userNotes ex_q1_markup)))
       (generateSimpleXML ex_printer ex_now [ex_q1_markup] [ex_insight1] ''2025-11-03_12-00-00'')"
    "sublist (xml_element ''insight'' (insight ex_insight1))
       (generateSimpleXML ex_printer ex_now [ex_q1_markup] [ex_insight1] ''2025-11-03_12-00-00'')"
    by simp_all
  with e show ?thesis
    by (simp only: ex_escaped simp_thms)
qed

subsection \<open>Coordinates\<close>

text \<open>
  \<^bold>\<open>C10\<close>. Every match \<^verbatim>\<open>validateLocation\<close> returns carries the coordinates (0, 0), on
  the authoritative path and on the fuzzy path, for any index; so the document a
  successful create writes, and the document an update with a location that did not throw
  leaves under the key, have the coordinates (0, 0).
\<close>

theorem coordinates_are_placeholder:
  "(\<forall>m \<in> set (validateLocation this E loc). lm_coordinates m = \<lparr>lat = 0, lon = 0\<rparr>) \<and>
   (createWeatherQuery this E db request = (Inr q, db') \<longrightarrow>
      coordinates q = Some \<lparr>lat = 0, lon = 0\<rparr> \<and>
      weather_queries db' = weather_queries db @ [q]) \<and>
   (upd_location updates = Some loc' \<and> loc' \<noteq> [] \<and>
    updateWeatherQuery this E db qid updates = (Inr x, db'') \<longrightarrow>
      (\<exists>k q'. objectId E qid = Inr k \<and> findOne db'' k = Some q' \<and>
              coordinates q' = Some \<lparr>lat = 0, lon = 0\<rparr> \<and> q' \<in> set (weather_queries db'')))"
proof (intro conjI impI ballI)
  fix m
  assume "m \<in> set (validateLocation this E loc)"
  then show "lm_coordinates m = \<lparr>lat = 0, lon = 0\<rparr>"
    by (rule validateLocation_coordinates)
next
  assume run: "createWeatherQuery this E db request = (Inr q, db')"
  from createWeatherQuery_Inr[OF run] obtain bestMatch rest where
    vl: "validateLocation this E (req_location request) = bestMatch # rest"
    and c: "coordinates q = Some (lm_coordinates bestMatch)"
    and d: "db' = db\<lparr>weather_queries := weather_queries db @ [q],
                      writes := writes db @ [InsertQuery (insertedId E)]\<rparr>"
    by blast
  from vl have "bestMatch \<in> set (validateLocation this E (req_location request))"
    by simp
  with c show "coordinates q = Some \<lparr>lat = 0, lon = 0\<rparr>"
    by (simp add: validateLocation_coordinates)
  from d show "weather_queries db' = weather_queries db @ [q]"
    by simp
next
  assume a: "upd_location updates = Some loc' \<and> loc' \<noteq> [] \<and>
    updateWeatherQuery this E db qid updates = (Inr x, db'')"
  from updateWeatherQuery_Inr[of this E db qid updates x db''] a obtain u1 u2 k q0 where
    u1: "handle_location_update this E updates
           \<lparr>set_updatedAt = clock E, set_location = None, set_locationNormalized = None,
            set_coordinates = None, set_weatherData = None, set_forecastData = None,
            set_dateRange = None, set_userNotes = None, set_tags = None\<rparr> = Inr u1"
    and u2: "handle_dateRange_update E updates u1 = Inr u2"
    and k: "objectId E qid = Inr k"
    and f: "findOne db k = Some q0"
    and d: "db'' = db\<lparr>weather_queries :=
                        replace_first (\<lambda>d. oid d = k)
                          (apply_set (u2\<lparr>set_userNotes := upd_userNotes updates,
                                         set_tags := upd_tags updates\<rparr>) q0)
                          (weather_queries db),
                       writes := writes db @ [UpdateQuery k]\<rparr>"
    by blast
  let ?q' = "apply_set (u2\<lparr>set_userNotes := upd_userNotes updates,
                            set_tags := upd_tags updates\<rparr>) q0"
  from handle_location_update_Inr[OF u1] a obtain bestMatch rest where
    vl: "validateLocation this E loc' = bestMatch # rest"
    and c1: "set_coordinates u1 = Some (lm_coordinates bestMatch)"
    by fastforce
  from vl have "bestMatch \<in> set (validateLocation this E loc')"
    by simp
  then have z: "lm_coordinates bestMatch = \<lparr>lat = 0, lon = 0\<rparr>"
    by (rule validateLocation_coordinates)
  from handle_dateRange_update_Inr[OF u2] c1 have "set_coordinates u2 = Some (lm_coordinates bestMatch)"
    by auto
  with z have c: "coordinates ?q' = Some \<lparr>lat = 0, lon = 0\<rparr>"
    by (simp add: apply_set_def)
  from f have "oid q0 = k"
    using find_Some_holds[of "\<lambda>d. oid d = k" "weather_queries db" q0] by (simp add: findOne_def)
  then have "oid ?q' = k"
    by (simp add: apply_set_def)
  with f d have f2: "findOne db'' k = Some ?q'"
    by (simp add: findOne_def find_replace_first)
  then have "?q' \<in> set (weather_queries db'')"
    by (simp add: findOne_def find_Some_mem)
  with k f2 c show "\<exists>k q'. objectId E qid = Inr k \<and> findOne db'' k = Some q' \<and>
      coordinates q' = Some \<lparr>lat = 0, lon = 0\<rparr> \<and> q' \<in> set (weather_queries db'')"
    by blast
qed

theorem coordinates_are_placeholder_witness:
  "validateLocation WeatherService_constructor ex_env ''London'' =
     [\<lparr>lm_name = ''London'', lm_country = ''GB'', lm_state = None,
       lm_coordinates = \<lparr>lat = 0, lon = 0\<rparr>, confidence = 1\<rparr>] \<and>
   fst (createWeatherQuery WeatherService_constructor ex_env ex_db ex_request) = Inr ex_created \<and>
   coordinates ex_created = Some \<lparr>lat = 0, lon = 0\<rparr> \<and>
   upd_location ex_to_Paris = Some ''Paris'' \<and>
   findOne
     (snd (updateWeatherQuery WeatherService_constructor ex_env ex_db
             ''690800000000000000000001'' ex_to_Paris))
     ''690800000000000000000001'' = Some ex_q1_in_Paris \<and>
   coordinates ex_q1_in_Paris = Some \<lparr>lat = 0, lon = 0\<rparr>"
  using coordinates_are_placeholder[of WeatherService_constructor ex_env "''London''" ex_db
      ex_request ex_created
      "\<lparr>weather_queries = [ex_q1, ex_created], ai_insights = [ex_insight1],
        writes = [InsertQuery ''690800000000000000000002'']\<rparr>"
      ex_to_Paris "''Paris''" "''690800000000000000000001''" None
      "\<lparr>weather_queries = [ex_q1_in_Paris], ai_insights = [ex_insight1],
        writes = [UpdateQuery ''690800000000000000000001'']\<rparr>"]
  by (auto simp: ex_create_run ex_update_location_run ex_validateLocation_London
      ex_to_Paris_location ex_in_Paris_stored ex_env_simps)

end
